theory Spec2Isabelle
  imports Complex_Main "HOL-Library.Log_Nat"
begin

section \<open>JavaScript values shared by the API server and the consumer\<close>

text \<open>
  A JavaScript number is a double: not-a-number, one of the two infinities, or a finite
  value, which is kept as the rational number it denotes (the two zeros are not told
  apart). Time values and counters are integers below \<open>2^53\<close>, which doubles hold
  exactly; a quotient or a product is rounded to the nearest double by \<open>fl\<close> below.
\<close>

datatype jsnum = NaN | PosInf | NegInf | Fin rat

text \<open>
  The values that \<open>JSON.parse\<close> produces and \<open>JSON.stringify\<close> consumes, with
  \<open>undefined\<close> for a property that is absent. An object is the list of its own
  properties in insertion order.
\<close>

datatype jsval =
    JUndefined
  | JNull
  | JBool bool
  | JNum jsnum
  | JStr string
  | JArr "jsval list"
  | JObj "(string \<times> jsval) list"

text \<open>A thrown \<open>Error\<close>: its optional \<open>code\<close> and its \<open>message\<close>.\<close>

datatype js_error = JsError (err_code: "string option") (err_message: string)

text \<open>
  The three states of a promise. An \<open>await\<close> resumes only once the promise has left
  \<open>Pending\<close>: with the value it is fulfilled with, or by throwing the error it is
  rejected with.
\<close>

datatype 'a promise = Pending | Fulfilled 'a | Rejected js_error

text \<open>A \<open>Date\<close>: an invalid date, or a time value in milliseconds since the epoch.\<close>

datatype jsdate = InvalidDate | TimeValue int

text \<open>Reading \<open>v.k\<close> throws a \<open>TypeError\<close> exactly when \<open>v\<close> is null or undefined.\<close>

fun nullish :: "jsval \<Rightarrow> bool" where
  "nullish JUndefined = True"
| "nullish JNull = True"
| "nullish _ = False"

text \<open>The \<open>TypeError\<close> that reading \<open>v.k\<close> throws for a nullish \<open>v\<close>.\<close>

definition cannot_read :: "jsval \<Rightarrow> string \<Rightarrow> js_error" where
  "cannot_read v k =
     JsError None
       (''Cannot read properties of '' @ (if v = JUndefined then ''undefined'' else ''null'') @
        '' (reading '' @ [CHR 0x27] @ k @ [CHR 0x27] @ '')'')"

text \<open>
  \<open>v.k\<close> for a value that is not nullish: the own property of an object, and
  \<open>undefined\<close> otherwise (none of the property names read below is inherited from a
  prototype).
\<close>

fun member :: "jsval \<Rightarrow> string \<Rightarrow> jsval" where
  "member (JObj kvs) k = (case map_of kvs k of None \<Rightarrow> JUndefined | Some v \<Rightarrow> v)"
| "member _ k = JUndefined"

text \<open>\<open>!v\<close>: the falsy values among those of \<open>jsval\<close>.\<close>

fun falsy :: "jsval \<Rightarrow> bool" where
  "falsy JUndefined = True"
| "falsy JNull = True"
| "falsy (JBool b) = (\<not> b)"
| "falsy (JNum NaN) = True"
| "falsy (JNum (Fin r)) = (r = 0)"
| "falsy (JNum _) = False"
| "falsy (JStr s) = (s = [])"
| "falsy _ = False"

subsection \<open>Number operations\<close>

text \<open>\<open>Math.max(a, b)\<close>: not-a-number as soon as one argument is.\<close>

fun Math_max :: "jsnum \<Rightarrow> jsnum \<Rightarrow> jsnum" where
  "Math_max NaN _ = NaN"
| "Math_max _ NaN = NaN"
| "Math_max PosInf _ = PosInf"
| "Math_max _ PosInf = PosInf"
| "Math_max NegInf b = b"
| "Math_max a NegInf = a"
| "Math_max (Fin a) (Fin b) = Fin (max a b)"

text \<open>\<open>Math.round(x)\<close>: the integer nearest to \<open>x\<close>, a half rounding up.\<close>

fun Math_round :: "jsnum \<Rightarrow> jsnum" where
  "Math_round (Fin r) = Fin (of_int \<lfloor>r + 1 / 2\<rfloor>)"
| "Math_round x = x"

text \<open>
  The exponent of a rational \<open>x \<noteq> 0\<close>: the integer \<open>e\<close> with
  \<open>2^e \<le> |x| < 2^(e+1)\<close>, found from the bit lengths of numerator and denominator.
\<close>

definition exponent :: "rat \<Rightarrow> int" where
  "exponent x =
     (case quotient_of \<bar>x\<bar> of
        (p, q) \<Rightarrow> let d = bitlen p - bitlen q in if 2 powi d \<le> \<bar>x\<bar> then d else d - 1)"

text \<open>The integer nearest to \<open>y\<close>, a half going to the even neighbour.\<close>

definition round_half_even :: "rat \<Rightarrow> int" where
  "round_half_even y =
     (let f = \<lfloor>y\<rfloor>; r = y - of_int f
      in if r < 1 / 2 then f else if 1 / 2 < r then f + 1 else if even f then f else f + 1)"

text \<open>
  The rounding of IEEE 754 binary64 arithmetic (round to nearest, ties to even): the
  exact result \<open>x\<close> of an operation becomes the nearest multiple of the unit in the last
  place, which is \<open>2^(e-52)\<close> for a result of exponent \<open>e\<close> and \<open>2^(-1074)\<close> in
  the subnormal range; a rounded result of \<open>2^1024\<close> or more overflows to an infinity.
\<close>

definition fl :: "rat \<Rightarrow> jsnum" where
  "fl x =
     (if x = 0 then Fin 0
      else
        let e = max (exponent x) (- 1022);
            u = 2 powi (e - 52);
            r = of_int (round_half_even (x / u)) * u
        in if r \<noteq> 0 \<and> 1024 \<le> exponent r then (if 0 < x then PosInf else NegInf)
           else Fin r)"

text \<open>
  \<open>a / b\<close>. A zero divisor is the positive zero: the only zero divisor below is the
  difference of two equal time values.
\<close>

fun js_div :: "jsnum \<Rightarrow> jsnum \<Rightarrow> jsnum" where
  "js_div NaN _ = NaN"
| "js_div _ NaN = NaN"
| "js_div (Fin a) (Fin b) =
     (if b \<noteq> 0 then fl (a / b)
      else if 0 < a then PosInf else if a < 0 then NegInf else NaN)"
| "js_div (Fin a) _ = Fin 0"
| "js_div PosInf (Fin b) = (if 0 \<le> b then PosInf else NegInf)"
| "js_div NegInf (Fin b) = (if 0 \<le> b then NegInf else PosInf)"
| "js_div _ _ = NaN"

text \<open>\<open>a * b\<close>.\<close>

fun js_mul :: "jsnum \<Rightarrow> jsnum \<Rightarrow> jsnum" where
  "js_mul NaN _ = NaN"
| "js_mul _ NaN = NaN"
| "js_mul (Fin a) (Fin b) = fl (a * b)"
| "js_mul (Fin a) PosInf = (if 0 < a then PosInf else if a < 0 then NegInf else NaN)"
| "js_mul (Fin a) NegInf = (if 0 < a then NegInf else if a < 0 then PosInf else NaN)"
| "js_mul PosInf (Fin b) = (if 0 < b then PosInf else if b < 0 then NegInf else NaN)"
| "js_mul NegInf (Fin b) = (if 0 < b then NegInf else if b < 0 then PosInf else NaN)"
| "js_mul PosInf PosInf = PosInf"
| "js_mul NegInf NegInf = PosInf"
| "js_mul _ _ = NegInf"

text \<open>\<open>now - d\<close> for the current time \<open>now\<close> and a date \<open>d\<close>, in milliseconds.\<close>

fun date_diff :: "int \<Rightarrow> jsdate \<Rightarrow> jsnum" where
  "date_diff now InvalidDate = NaN"
| "date_diff now (TimeValue t) = Fin (of_int (now - t))"

text \<open>\<open>x >= 0\<close> on numbers: false for not-a-number.\<close>

fun js_nonneg :: "jsnum \<Rightarrow> bool" where
  "js_nonneg NaN = False"
| "js_nonneg PosInf = True"
| "js_nonneg NegInf = False"
| "js_nonneg (Fin r) = (0 \<le> r)"

text \<open>The decimal digits of a natural number, as a template literal prints it.\<close>

fun show_nat :: "nat \<Rightarrow> string" where
  "show_nat n =
     (if n < 10 then [''0123456789'' ! n]
      else show_nat (n div 10) @ [''0123456789'' ! (n mod 10)])"

declare show_nat.simps [simp del]

definition show_int :: "int \<Rightarrow> string" where
  "show_int i = (if i < 0 then CHR ''-'' # show_nat (nat (- i)) else show_nat (nat i))"

section \<open>The consumer (consumer/consumer.js)\<close>

subsection \<open>Configuration\<close>

record consumer_config =
  groupId :: string
  sessionTimeout :: nat
  heartbeatInterval :: nat

definition consumer :: consumer_config where
  "consumer =
     \<lparr>groupId = ''database-changes-group'', sessionTimeout = 30000, heartbeatInterval = 3000\<rparr>"

subsection \<open>Messages, log lines and the environment\<close>

text \<open>
  A message as the client hands it over. \<open>m_value\<close> and \<open>m_key\<close> are \<open>None\<close>
  for a null buffer, and otherwise hold the text that \<open>toString()\<close> decodes from the
  bytes (the decoding never throws).
\<close>

record message =
  m_key :: "string option"
  m_value :: "string option"
  m_offset :: string

datatype logger_name = ConsumerLogger | DatabaseLogger | KafkaLogger

datatype level = INFO | ERROR

text \<open>
  One call of a logger. \<open>LogJson l lv p v\<close> is the line made of the prefix \<open>p\<close>
  followed by \<open>JSON.stringify(v)\<close>; \<open>LogText l lv s\<close> is the line \<open>s\<close>.
\<close>

datatype log_line =
    LogJson logger_name level string jsval
  | LogText logger_name level string

text \<open>
  The engine functions the consumer calls: their results are parameters. \<open>JSON.parse\<close>
  throws on a text that is not JSON, and \<open>new Date(v)\<close> throws when \<open>v\<close> is an
  object that cannot be converted to a primitive value.
\<close>

record engine =
  JSON_parse :: "string \<Rightarrow> js_error + jsval"
  new_Date :: "jsval \<Rightarrow> js_error + jsdate"
  toISOString :: "int \<Rightarrow> string"

text \<open>
  What one call of \<open>processChange\<close> observes of the outside: the five readings of the
  clock, in the order of the source, and whether each of its three log calls throws: the
  two inside the \<open>try\<close> block (the change at line 75, the statistics at line 89) and
  the one of the \<open>catch\<close> clause (line 93).
\<close>

record reading =
  t_processed :: int
  t_latency :: int
  t_stats :: int
  t_uptime :: int
  t_rate :: int
  emit_throws :: "js_error option"
  stats_throws :: "js_error option"
  error_throws :: "js_error option"

subsection \<open>DatabaseChangeProcessor\<close>

record processor =
  processedCount :: nat
  startTime :: int

definition new_processor :: "int \<Rightarrow> processor" where
  "new_processor now = \<lparr>processedCount = 0, startTime = now\<rparr>"

definition calculateLatency :: "engine \<Rightarrow> int \<Rightarrow> jsval \<Rightarrow> js_error + jsnum" where
  "calculateLatency eng now originalTimestamp =
     (case new_Date eng originalTimestamp of
        Inl e \<Rightarrow> Inl e
      | Inr original \<Rightarrow> Inr (Math_max (Fin 0) (date_diff now original)))"

text \<open>
  What a call has done when it returns or throws: the processor as the call left it, the
  lines logged and the exception that escapes, if one does.
\<close>

record outcome =
  proc :: processor
  logged :: "log_line list"
  thrown :: "js_error option"

text \<open>The statistics object of a snapshot (lines 82 to 87).\<close>

definition stats_object :: "engine \<Rightarrow> reading \<Rightarrow> processor \<Rightarrow> jsval" where
  "stats_object eng rd st =
     JObj
      [(''timestamp'', JStr (toISOString eng (t_stats rd))),
       (''totalProcessed'', JNum (Fin (of_nat (processedCount st)))),
       (''uptime'',
          JNum (Math_round (js_div (Fin (of_int (t_uptime rd - startTime st))) (Fin 1000)))),
       (''averageProcessingRate'',
          JNum
           (js_div
             (Math_round
               (js_mul
                 (js_div (Fin (of_nat (processedCount st)))
                   (js_div (js_div (Fin (of_int (t_rate rd - startTime st))) (Fin 1000))
                     (Fin 60)))
                 (Fin 100)))
             (Fin 100)))]"

text \<open>
  The object logged for one change (lines 63 to 72), given the value that
  \<open>calculateLatency\<close> has returned.
\<close>

definition processedChange :: "engine \<Rightarrow> reading \<Rightarrow> jsval \<Rightarrow> jsnum \<Rightarrow> jsval" where
  "processedChange eng rd changeData latency =
     JObj
      [(''timestamp'', JStr (toISOString eng (t_processed rd))),
       (''originalTimestamp'', member changeData ''timestamp''),
       (''operation'', member changeData ''operation''),
       (''table'', member changeData ''table''),
       (''data'', member changeData ''data''),
       (''userId'', member changeData ''userId''),
       (''processedBy'', JStr ''kafka-consumer''),
       (''processingLatency'', JNum latency)]"

text \<open>
  The \<open>try\<close> block of \<open>processChange\<close>. The counter is incremented after the change
  has been logged, so an exception before that leaves it as it was, and one thrown by the
  statistics line leaves it incremented.
\<close>

definition processChange_try :: "engine \<Rightarrow> reading \<Rightarrow> processor \<Rightarrow> message \<Rightarrow> outcome" where
  "processChange_try eng rd st msg =
     (case m_value msg of
        None \<Rightarrow>
          \<lparr>proc = st, logged = [],
           thrown = Some (cannot_read JNull ''toString'')\<rparr>
      | Some payload \<Rightarrow>
          (case JSON_parse eng payload of
             Inl e \<Rightarrow> \<lparr>proc = st, logged = [], thrown = Some e\<rparr>
           | Inr changeData \<Rightarrow>
               if nullish changeData then
                 \<lparr>proc = st, logged = [],
                  thrown = Some (cannot_read changeData ''timestamp'')\<rparr>
               else
                 (case calculateLatency eng (t_latency rd) (member changeData ''timestamp'') of
                    Inl e \<Rightarrow> \<lparr>proc = st, logged = [], thrown = Some e\<rparr>
                  | Inr latency \<Rightarrow>
                      (case emit_throws rd of
                         Some e \<Rightarrow> \<lparr>proc = st, logged = [], thrown = Some e\<rparr>
                       | None \<Rightarrow>
                           let line = LogJson DatabaseLogger INFO []
                                        (processedChange eng rd changeData latency);
                               st' = st\<lparr>processedCount := processedCount st + 1\<rparr>
                           in if processedCount st' mod 10 = 0 then
                                (case stats_throws rd of
                                   Some e \<Rightarrow> \<lparr>proc = st', logged = [line], thrown = Some e\<rparr>
                                 | None \<Rightarrow>
                                     \<lparr>proc = st',
                                      logged =
                                        [line,
                                         LogJson ConsumerLogger INFO ''Processing statistics: ''
                                           (stats_object eng rd st')],
                                      thrown = None\<rparr>)
                              else \<lparr>proc = st', logged = [line], thrown = None\<rparr>))))"

text \<open>
  \<open>processChange\<close>: the \<open>catch\<close> clause logs the message of whatever the block
  threw and returns. Its call of the error logger is not guarded: when that call throws,
  the exception leaves \<open>processChange\<close>.
\<close>

definition processChange :: "engine \<Rightarrow> reading \<Rightarrow> processor \<Rightarrow> message \<Rightarrow> outcome" where
  "processChange eng rd st msg =
     (let r = processChange_try eng rd st msg
      in case thrown r of
           None \<Rightarrow> r
         | Some error \<Rightarrow>
             (case error_throws rd of
                Some e \<Rightarrow> r\<lparr>thrown := Some e\<rparr>
              | None \<Rightarrow>
                  r\<lparr>logged :=
                       logged r @
                       [LogText ConsumerLogger ERROR
                          (''Error processing database change: '' @ err_message error)],
                    thrown := None\<rparr>))"

text \<open>
  What a call that has entered the \<open>catch\<close> clause with \<open>error\<close> has done, after the
  lines \<open>ls\<close> of the \<open>try\<close> block: the error line when the error logger returns, and
  the exception of the error logger when it throws.
\<close>

definition caught :: "reading \<Rightarrow> processor \<Rightarrow> log_line list \<Rightarrow> js_error \<Rightarrow> outcome" where
  "caught rd st ls error =
     \<lparr>proc = st,
      logged =
        ls @
        (case error_throws rd of
           None \<Rightarrow>
             [LogText ConsumerLogger ERROR
                (''Error processing database change: '' @ err_message error)]
         | Some e \<Rightarrow> []),
      thrown = error_throws rd\<rparr>"

subsection \<open>The message handler and the run loop\<close>

text \<open>
  One delivery to \<open>eachMessage\<close>: the payload, the clock readings it meets, and whether
  the log call of the handler (line 125) throws.
\<close>

record delivery =
  d_topic :: string
  d_partition :: nat
  d_message :: message
  d_received :: int
  received_throws :: "js_error option"
  d_reading :: reading

text \<open>The object that the handler logs on reception (lines 117 to 123).\<close>

definition messageInfo :: "engine \<Rightarrow> delivery \<Rightarrow> jsval" where
  "messageInfo eng d =
     JObj
      [(''topic'', JStr (d_topic d)),
       (''partition'', JNum (Fin (of_nat (d_partition d)))),
       (''offset'', JStr (m_offset (d_message d))),
       (''timestamp'', JStr (toISOString eng (d_received d))),
       (''key'', (case m_key (d_message d) of Some k \<Rightarrow> JStr k | None \<Rightarrow> JNull))]"

text \<open>
  The \<open>eachMessage\<close> handler of \<open>runConsumer\<close> (lines 116 to 128): it logs the
  reception and awaits \<open>processChange\<close>. Neither step is guarded: an exception of the
  log call, or one that leaves \<open>processChange\<close>, leaves the handler.
\<close>

definition eachMessage :: "engine \<Rightarrow> processor \<Rightarrow> delivery \<Rightarrow> outcome" where
  "eachMessage eng st d =
     (case received_throws d of
        Some e \<Rightarrow> \<lparr>proc = st, logged = [], thrown = Some e\<rparr>
      | None \<Rightarrow>
          let r = processChange eng (d_reading d) st (d_message d)
          in r\<lparr>logged :=
                 LogJson KafkaLogger INFO ''Received message: '' (messageInfo eng d) # logged r\<rparr>)"

datatype loop_status = DISCONNECTED | CONNECTING | SUBSCRIBED | RUNNING | DISCONNECTING

record loop_state =
  status :: loop_status
  position :: nat
  worker :: processor
  lines :: "log_line list"

text \<open>
  Modelled from the spec: the runner of the client library, which is not part of the
  repository. Section 4.3 has it pass each record to the handler and advance the offset of
  the partition once the handler has returned; a handler that throws takes the loop out of
  \<open>RUNNING\<close> without advancing.
\<close>

definition deliver :: "engine \<Rightarrow> loop_state \<Rightarrow> delivery \<Rightarrow> loop_state" where
  "deliver eng s d =
     (if status s \<noteq> RUNNING then s
      else
        let r = eachMessage eng (worker s) d
        in case thrown r of
             None \<Rightarrow>
               s\<lparr>position := position s + 1, worker := proc r, lines := lines s @ logged r\<rparr>
           | Some e \<Rightarrow>
               s\<lparr>status := DISCONNECTED, worker := proc r, lines := lines s @ logged r\<rparr>)"

definition run_loop :: "engine \<Rightarrow> loop_state \<Rightarrow> delivery list \<Rightarrow> loop_state" where
  "run_loop eng s ds = foldl (deliver eng) s ds"

text \<open>The snapshots among the lines logged: the statistics lines of the consumer logger.\<close>

fun is_snapshot :: "log_line \<Rightarrow> bool" where
  "is_snapshot (LogJson ConsumerLogger INFO p v) = (p = ''Processing statistics: '')"
| "is_snapshot _ = False"

definition snapshots :: "log_line list \<Rightarrow> log_line list" where
  "snapshots ls = filter is_snapshot ls"

text \<open>The change objects among the lines logged: the lines of the database logger.\<close>

fun changes :: "log_line list \<Rightarrow> jsval list" where
  "changes [] = []"
| "changes (LogJson DatabaseLogger INFO p v # ls) = v # changes ls"
| "changes (l # ls) = changes ls"

text \<open>
  The rate as the specification words it: \<open>totalProcessed / (uptimeSeconds / 60)\<close>,
  rounded to two decimal places, in the arithmetic of JavaScript numbers.
\<close>

definition round2 :: "jsnum \<Rightarrow> jsnum" where
  "round2 x = js_div (Math_round (js_mul x (Fin 100))) (Fin 100)"

definition spec_rate :: "jsnum \<Rightarrow> jsnum \<Rightarrow> jsnum" where
  "spec_rate totalProcessed uptimeSeconds =
     round2 (js_div totalProcessed (js_div uptimeSeconds (Fin 60)))"

subsection \<open>Graceful shutdown\<close>

datatype signal = SIGINT | SIGTERM

fun signal_name :: "signal \<Rightarrow> string" where
  "signal_name SIGINT = ''SIGINT''"
| "signal_name SIGTERM = ''SIGTERM''"

datatype shutdown_event =
    Logged log_line
  | DisconnectCalled
  | DisconnectFulfilled
  | DisconnectRejected js_error
  | ServerClosed
  | Exited nat

text \<open>
  The consumer process: the state of its subscription (the status that the client library
  keeps: \<open>disconnect\<close> takes it to \<open>DISCONNECTING\<close> and, once fulfilled, to
  \<open>DISCONNECTED\<close>), whether the health server listens, the exit code once the process
  has exited, and the events so far, oldest first.
\<close>

record process_state =
  subscription :: loop_status
  listening :: bool
  exit_code :: "nat option"
  trace :: "shutdown_event list"

definition running_process :: process_state where
  "running_process = \<lparr>subscription = RUNNING, listening = True, exit_code = None, trace = []\<rparr>"

text \<open>
  \<open>gracefulShutdown\<close> (lines 160 to 172), up to the moment at which the process is
  observed, for the state that the promise of \<open>consumer.disconnect()\<close> has reached by
  then: while it is pending the function stays suspended at its \<open>await\<close>.
\<close>

definition gracefulShutdown :: "string \<Rightarrow> unit promise \<Rightarrow> process_state \<Rightarrow> process_state" where
  "gracefulShutdown sig disconnect_result ps =
     (let ps1 =
            ps\<lparr>subscription := DISCONNECTING,
               trace :=
                 trace ps @
                 [Logged
                    (LogText ConsumerLogger INFO
                       (''Received '' @ sig @ '', shutting down gracefully...'')),
                  DisconnectCalled]\<rparr>
      in case disconnect_result of
           Pending \<Rightarrow> ps1
         | Fulfilled u \<Rightarrow>
             ps1\<lparr>subscription := DISCONNECTED, listening := False, exit_code := Some 0,
                 trace :=
                   trace ps1 @
                   [DisconnectFulfilled, ServerClosed,
                    Logged (LogText ConsumerLogger INFO ''Consumer disconnected successfully''),
                    Exited 0]\<rparr>
         | Rejected error \<Rightarrow>
             ps1\<lparr>exit_code := Some 1,
                 trace :=
                   trace ps1 @
                   [DisconnectRejected error,
                    Logged
                      (LogText ConsumerLogger ERROR
                         (''Error during shutdown: '' @ err_message error)),
                    Exited 1]\<rparr>)"

text \<open>The handlers installed by \<open>process.on\<close> for the two signals (lines 174, 175).\<close>

definition on_signal :: "signal \<Rightarrow> unit promise \<Rightarrow> process_state \<Rightarrow> process_state" where
  "on_signal sig = gracefulShutdown (signal_name sig)"

text \<open>The position of the first event that satisfies \<open>P\<close>, if there is one.\<close>

fun first_index :: "('a \<Rightarrow> bool) \<Rightarrow> 'a list \<Rightarrow> nat option" where
  "first_index P [] = None"
| "first_index P (x # xs) =
     (if P x then Some 0 else map_option Suc (first_index P xs))"

fun is_exit :: "shutdown_event \<Rightarrow> bool" where
  "is_exit (Exited c) = True"
| "is_exit _ = False"

fun is_settled :: "shutdown_event \<Rightarrow> bool" where
  "is_settled DisconnectFulfilled = True"
| "is_settled (DisconnectRejected e) = True"
| "is_settled _ = False"

section \<open>The API server (the backend's server file)\<close>

text \<open>One call of the default logger: \<open>logger.info(text, object)\<close> or \<open>logger.error(text, error)\<close>.\<close>

datatype api_log = ApiInfo string jsval | ApiError string js_error

record kafka_message =
  km_key :: string
  km_value :: string

record send_request =
  topic :: string
  messages :: "kafka_message list"

text \<open>
  What one request meets outside the handler, up to the moment at which the request is
  observed: the two engine functions, the clock readings, and the state that the promise
  of each awaited call has reached by then (\<open>Pending\<close> when it has not settled yet;
  \<open>jwt.sign\<close> is synchronous: it returns or throws). \<open>insert_user_result\<close> holds
  \<open>result.insertId\<close> and \<open>select_result\<close> the rows.
\<close>

record api_world =
  iso :: "int \<Rightarrow> string"
  stringify :: "jsval \<Rightarrow> string"
  t_capture :: int
  t_key :: int
  t_activity :: int
  send_result :: "unit promise"
  hash_result :: "string promise"
  insert_user_result :: "jsval promise"
  select_result :: "jsval list promise"
  compare_result :: "bool promise"
  sign_result :: "js_error + string"
  update_result :: "unit promise"
  insert_activity_result :: "unit promise"

text \<open>What a call of \<open>logDatabaseChange\<close> has done by then, and the state of its promise.\<close>

record published =
  settled :: "unit promise"
  p_logs :: "api_log list"
  p_sent :: "send_request list"

text \<open>The record built by \<open>logDatabaseChange\<close>; an omitted \<open>userId\<close> is \<open>undefined\<close> and takes the default.\<close>

definition changeLog :: "api_world \<Rightarrow> string \<Rightarrow> string \<Rightarrow> jsval \<Rightarrow> jsval \<Rightarrow> jsval" where
  "changeLog w operation table data userId =
     JObj
      [(''timestamp'', JStr (iso w (t_capture w))),
       (''operation'', JStr operation),
       (''table'', JStr table),
       (''data'', data),
       (''userId'', (if userId = JUndefined then JNull else userId))]"

definition logDatabaseChange ::
  "api_world \<Rightarrow> string \<Rightarrow> string \<Rightarrow> jsval \<Rightarrow> jsval \<Rightarrow> published" where
  "logDatabaseChange w operation table data userId =
     (let entry = changeLog w operation table data userId;
          request =
            \<lparr>topic = ''database-changes'',
             messages =
               [\<lparr>km_key = table @ ''-'' @ show_int (t_key w),
                 km_value = stringify w entry\<rparr>]\<rparr>
      in case send_result w of
           Pending \<Rightarrow> \<lparr>settled = Pending, p_logs = [], p_sent = [request]\<rparr>
         | Fulfilled u \<Rightarrow>
             \<lparr>settled = Fulfilled (),
              p_logs = [ApiInfo ''Database change logged:'' entry],
              p_sent = [request]\<rparr>
         | Rejected error \<Rightarrow>
             \<lparr>settled = Fulfilled (),
              p_logs = [ApiError ''Failed to log database change to Kafka:'' error],
              p_sent = [request]\<rparr>)"

text \<open>
  What a route handler has done by then: the response sent (status and body), if one has
  been sent, the lines logged and the requests handed to the producer.
\<close>

record reply =
  response :: "(nat \<times> jsval) option"
  r_logs :: "api_log list"
  r_sent :: "send_request list"

definition error_body :: "string \<Rightarrow> jsval" where
  "error_body s = JObj [(''error'', JStr s)]"

text \<open>A handler suspended at an \<open>await\<close> whose promise is pending: nothing is sent.\<close>

definition suspended :: "api_log list \<Rightarrow> send_request list \<Rightarrow> reply" where
  "suspended ls sn = \<lparr>response = None, r_logs = ls, r_sent = sn\<rparr>"

definition responded :: "nat \<Rightarrow> jsval \<Rightarrow> api_log list \<Rightarrow> send_request list \<Rightarrow> reply" where
  "responded st body ls sn = \<lparr>response = Some (st, body), r_logs = ls, r_sent = sn\<rparr>"

subsection \<open>POST /api/register\<close>

definition register_catch :: "js_error \<Rightarrow> api_log list \<Rightarrow> send_request list \<Rightarrow> reply" where
  "register_catch error ls sn =
     (let ls' = ls @ [ApiError ''Registration error:'' error]
      in if err_code error = Some ''ER_DUP_ENTRY''
         then responded 400 (error_body ''Username or email already exists'') ls' sn
         else responded 500 (error_body ''Internal server error'') ls' sn)"

text \<open>\<open>body\<close> is \<open>req.body\<close>, which the body parser has set to an object.\<close>

definition register :: "api_world \<Rightarrow> (string \<times> jsval) list \<Rightarrow> reply" where
  "register w body =
     (let username = member (JObj body) ''username'';
          email = member (JObj body) ''email'';
          password = member (JObj body) ''password''
      in if falsy username \<or> falsy email \<or> falsy password
         then responded 400 (error_body ''All fields are required'') [] []
         else
           (case hash_result w of
              Pending \<Rightarrow> suspended [] []
            | Rejected e \<Rightarrow> register_catch e [] []
            | Fulfilled hashedPassword \<Rightarrow>
                (case insert_user_result w of
                   Pending \<Rightarrow> suspended [] []
                 | Rejected e \<Rightarrow> register_catch e [] []
                 | Fulfilled insertId \<Rightarrow>
                     let p = logDatabaseChange w ''INSERT'' ''users''
                               (JObj [(''id'', insertId), (''username'', username),
                                      (''email'', email)])
                               JUndefined
                     in (case settled p of
                           Pending \<Rightarrow> suspended (p_logs p) (p_sent p)
                         | Rejected e \<Rightarrow> register_catch e (p_logs p) (p_sent p)
                         | Fulfilled u \<Rightarrow>
                             responded 201
                               (JObj [(''message'', JStr ''User registered successfully''),
                                      (''userId'', insertId)])
                               (p_logs p) (p_sent p)))))"

subsection \<open>POST /api/login\<close>

definition login_catch :: "js_error \<Rightarrow> api_log list \<Rightarrow> send_request list \<Rightarrow> reply" where
  "login_catch error ls sn =
     responded 500 (error_body ''Internal server error'')
       (ls @ [ApiError ''Login error:'' error]) sn"

definition login :: "api_world \<Rightarrow> (string \<times> jsval) list \<Rightarrow> jsval \<Rightarrow> reply" where
  "login w body clientIP =
     (let username = member (JObj body) ''username'';
          password = member (JObj body) ''password''
      in if falsy username \<or> falsy password
         then responded 400 (error_body ''Username and password are required'') [] []
         else
           (case select_result w of
              Pending \<Rightarrow> suspended [] []
            | Rejected e \<Rightarrow> login_catch e [] []
            | Fulfilled rows \<Rightarrow>
                (case rows of
                   [] \<Rightarrow> responded 401 (error_body ''Invalid credentials'') [] []
                 | user # rest \<Rightarrow>
                     if nullish user
                     then login_catch (cannot_read user ''password'') [] []
                     else
                     (case compare_result w of
                        Pending \<Rightarrow> suspended [] []
                      | Rejected e \<Rightarrow> login_catch e [] []
                      | Fulfilled validPassword \<Rightarrow>
                          if \<not> validPassword
                          then responded 401 (error_body ''Invalid credentials'') [] []
                          else
                            (case sign_result w of
                               Inl e \<Rightarrow> login_catch e [] []
                             | Inr token \<Rightarrow>
                                 (case update_result w of
                                    Pending \<Rightarrow> suspended [] []
                                  | Rejected e \<Rightarrow> login_catch e [] []
                                  | Fulfilled u \<Rightarrow>
                                      let activityLog =
                                            JObj
                                             [(''timestamp'', JStr (iso w (t_activity w))),
                                              (''userId'', member user ''id''),
                                              (''action'', JStr ''LOGIN''),
                                              (''ipAddress'', clientIP)];
                                          ls = [ApiInfo ''User activity:'' activityLog]
                                      in (case insert_activity_result w of
                                           Pending \<Rightarrow> suspended ls []
                                         | Rejected e \<Rightarrow> login_catch e ls []
                                         | Fulfilled u' \<Rightarrow>
                                             let p = logDatabaseChange w ''INSERT''
                                                       ''user_activity'' activityLog
                                                       (member user ''id'')
                                             in (case settled p of
                                                  Pending \<Rightarrow>
                                                    suspended (ls @ p_logs p) (p_sent p)
                                                | Rejected e \<Rightarrow>
                                                    login_catch e (ls @ p_logs p) (p_sent p)
                                                | Fulfilled u'' \<Rightarrow>
                                                    responded 200
                                                      (JObj
                                                        [(''message'', JStr ''Login successful''),
                                                         (''token'', JStr token),
                                                         (''user'',
                                                            JObj
                                                             [(''id'', member user ''id''),
                                                              (''username'',
                                                                 member user ''username''),
                                                              (''email'', member user ''email'')])])
                                                      (ls @ p_logs p) (p_sent p)))))))))"

subsection \<open>POST /api/logout\<close>

definition logout_catch :: "js_error \<Rightarrow> api_log list \<Rightarrow> send_request list \<Rightarrow> reply" where
  "logout_catch error ls sn =
     responded 500 (error_body ''Internal server error'')
       (ls @ [ApiError ''Logout error:'' error]) sn"

text \<open>
  The handler behind \<open>authenticateToken\<close>: \<open>userId\<close> is \<open>req.user.userId\<close> of the
  verified token and \<open>ip\<close> the address of the client.
\<close>

definition logout :: "api_world \<Rightarrow> jsval \<Rightarrow> jsval \<Rightarrow> reply" where
  "logout w userId ip =
     (case update_result w of
        Pending \<Rightarrow> suspended [] []
      | Rejected e \<Rightarrow> logout_catch e [] []
      | Fulfilled u \<Rightarrow>
          let activityLog =
                JObj
                 [(''timestamp'', JStr (iso w (t_activity w))),
                  (''userId'', userId),
                  (''action'', JStr ''LOGOUT''),
                  (''ipAddress'', ip)];
              ls = [ApiInfo ''User activity:'' activityLog]
          in (case insert_activity_result w of
               Pending \<Rightarrow> suspended ls []
             | Rejected e \<Rightarrow> logout_catch e ls []
             | Fulfilled u' \<Rightarrow>
                 let p = logDatabaseChange w ''UPDATE'' ''users''
                           (JObj [(''id'', userId), (''token'', JNull)]) userId
                 in (case settled p of
                      Pending \<Rightarrow> suspended (ls @ p_logs p) (p_sent p)
                    | Rejected e \<Rightarrow> logout_catch e (ls @ p_logs p) (p_sent p)
                    | Fulfilled u'' \<Rightarrow>
                        responded 200 (JObj [(''message'', JStr ''Logout successful'')])
                          (ls @ p_logs p) (p_sent p))))"

section \<open>Sample inputs\<close>

text \<open>
  An engine that parses one well-formed record and the text \<open>null\<close>, and rejects every
  other payload; the timestamp \<open>T\<close> of the record is the time value 2000.
\<close>

definition sample_engine :: engine where
  "sample_engine =
     \<lparr>JSON_parse =
        (\<lambda>s. if s = ''{\"timestamp\":\"T\",\"table\":\"users\"}''
             then Inr (JObj [(''timestamp'', JStr ''T''), (''table'', JStr ''users'')])
             else if s = ''null'' then Inr JNull
             else Inl (JsError None ''Unexpected token'')),
      new_Date = (\<lambda>v. if v = JStr ''T'' then Inr (TimeValue 2000) else Inr InvalidDate),
      toISOString = show_int\<rparr>"

definition sample_record :: jsval where
  "sample_record = JObj [(''timestamp'', JStr ''T''), (''table'', JStr ''users'')]"

definition sample_reading :: reading where
  "sample_reading =
     \<lparr>t_processed = 1500, t_latency = 1501, t_stats = 7499, t_uptime = 7500, t_rate = 7500,
      emit_throws = None, stats_throws = None, error_throws = None\<rparr>"

definition sample_message :: message where
  "sample_message =
     \<lparr>m_key = Some ''users-1400'', m_value = Some ''{\"timestamp\":\"T\",\"table\":\"users\"}'',
      m_offset = ''7''\<rparr>"

definition malformed_message :: message where
  "malformed_message = \<lparr>m_key = None, m_value = Some ''not json'', m_offset = ''8''\<rparr>"

definition sample_delivery :: delivery where
  "sample_delivery =
     \<lparr>d_topic = ''database-changes'', d_partition = 0, d_message = sample_message,
      d_received = 1499, received_throws = None, d_reading = sample_reading\<rparr>"

definition malformed_delivery :: delivery where
  "malformed_delivery =
     \<lparr>d_topic = ''database-changes'', d_partition = 0, d_message = malformed_message,
      d_received = 1498, received_throws = None, d_reading = sample_reading\<rparr>"

text \<open>A running loop whose processor, started at time 0, has processed nine records.\<close>

definition ninth :: loop_state where
  "ninth =
     \<lparr>status = RUNNING, position = 9, worker = \<lparr>processedCount = 9, startTime = 0\<rparr>,
      lines = []\<rparr>"

text \<open>
  A request environment in which every awaited call is fulfilled, and the body of a
  registration request.
\<close>

definition sample_world :: api_world where
  "sample_world =
     \<lparr>iso = show_int, stringify = (\<lambda>v. ''{}''),
      t_capture = 1000, t_key = 1001, t_activity = 999,
      send_result = Fulfilled (), hash_result = Fulfilled ''$2b$10$hash'',
      insert_user_result = Fulfilled (JNum (Fin 7)),
      select_result =
        Fulfilled [JObj [(''id'', JNum (Fin 7)), (''username'', JStr ''ada''),
                         (''email'', JStr ''ada@example.com''), (''password'', JStr ''$2b$10$hash'')]],
      compare_result = Fulfilled True, sign_result = Inr ''token'',
      update_result = Fulfilled (), insert_activity_result = Fulfilled ()\<rparr>"

definition sample_body :: "(string \<times> jsval) list" where
  "sample_body =
     [(''username'', JStr ''ada''), (''email'', JStr ''ada@example.com''),
      (''password'', JStr ''secret'')]"

section \<open>Properties of the consumer\<close>

subsection \<open>Auxiliary facts\<close>

lemma processChange_try_cases:
  obtains
    (threw) e where
      "processChange_try eng rd st msg = \<lparr>proc = st, logged = [], thrown = Some e\<rparr>"
  | (plain) pc where
      "processChange_try eng rd st msg =
         \<lparr>proc = st\<lparr>processedCount := processedCount st + 1\<rparr>,
          logged = [LogJson DatabaseLogger INFO [] pc], thrown = None\<rparr>"
      "(processedCount st + 1) mod 10 \<noteq> 0"
  | (stats_threw) pc e where
      "processChange_try eng rd st msg =
         \<lparr>proc = st\<lparr>processedCount := processedCount st + 1\<rparr>,
          logged = [LogJson DatabaseLogger INFO [] pc], thrown = Some e\<rparr>"
      "(processedCount st + 1) mod 10 = 0" "stats_throws rd = Some e"
  | (snapshot) pc where
      "processChange_try eng rd st msg =
         \<lparr>proc = st\<lparr>processedCount := processedCount st + 1\<rparr>,
          logged =
            [LogJson DatabaseLogger INFO [] pc,
             LogJson ConsumerLogger INFO ''Processing statistics: ''
               (stats_object eng rd (st\<lparr>processedCount := processedCount st + 1\<rparr>))],
          thrown = None\<rparr>"
      "(processedCount st + 1) mod 10 = 0" "stats_throws rd = None"
proof (cases "m_value msg")
  case None
  show ?thesis
    by (rule threw [of "cannot_read JNull ''toString''"]) (simp add: processChange_try_def None)
next
  case (Some payload)
  note v = Some
  show ?thesis
  proof (cases "JSON_parse eng payload")
    case (Inl e)
    show ?thesis
      by (rule threw [of e]) (simp add: processChange_try_def v Inl)
  next
    case (Inr changeData)
    note j = Inr
    show ?thesis
    proof (cases "nullish changeData")
      case True
      show ?thesis
        by (rule threw [of "cannot_read changeData ''timestamp''"])
           (simp add: processChange_try_def v j True)
    next
      case False
      note n = False
      show ?thesis
      proof (cases "calculateLatency eng (t_latency rd) (member changeData ''timestamp'')")
        case (Inl e)
        show ?thesis
          by (rule threw [of e]) (simp add: processChange_try_def v j n Inl)
      next
        case (Inr latency)
        note l = Inr
        show ?thesis
        proof (cases "emit_throws rd")
          case (Some e)
          show ?thesis
            by (rule threw [of e]) (simp add: processChange_try_def v j n l Some)
        next
          case None
          note em = None
          show ?thesis
          proof (cases "(processedCount st + 1) mod 10 = 0")
            case False
            have "processChange_try eng rd st msg =
                    \<lparr>proc = st\<lparr>processedCount := processedCount st + 1\<rparr>,
                     logged = [LogJson DatabaseLogger INFO []
                                 (processedChange eng rd changeData latency)],
                     thrown = None\<rparr>"
              using False by (simp add: processChange_try_def v j n l em Let_def)
            then show ?thesis using False by (rule plain)
          next
            case True
            note m = True
            show ?thesis
            proof (cases "stats_throws rd")
              case None
              have "processChange_try eng rd st msg =
                      \<lparr>proc = st\<lparr>processedCount := processedCount st + 1\<rparr>,
                       logged =
                         [LogJson DatabaseLogger INFO []
                            (processedChange eng rd changeData latency),
                          LogJson ConsumerLogger INFO ''Processing statistics: ''
                            (stats_object eng rd
                               (st\<lparr>processedCount := processedCount st + 1\<rparr>))],
                       thrown = None\<rparr>"
                using m None by (simp add: processChange_try_def v j n l em Let_def)
              then show ?thesis using m None by (rule snapshot)
            next
              case (Some e)
              have "processChange_try eng rd st msg =
                      \<lparr>proc = st\<lparr>processedCount := processedCount st + 1\<rparr>,
                       logged = [LogJson DatabaseLogger INFO []
                                   (processedChange eng rd changeData latency)],
                       thrown = Some e\<rparr>"
                using m Some by (simp add: processChange_try_def v j n l em Let_def)
              then show ?thesis using m Some by (rule stats_threw)
            qed
          qed
        qed
      qed
    qed
  qed
qed

lemma processChange_proc:
  "proc (processChange eng rd st msg) = proc (processChange_try eng rd st msg)"
  by (simp add: processChange_def Let_def split: option.splits)

lemma processChange_thrown:
  "thrown (processChange eng rd st msg) =
     (case thrown (processChange_try eng rd st msg) of
        None \<Rightarrow> None
      | Some error \<Rightarrow> error_throws rd)"
  by (simp add: processChange_def Let_def split: option.splits)

lemma processChange_logged:
  "logged (processChange eng rd st msg) =
     logged (processChange_try eng rd st msg) @
     (case thrown (processChange_try eng rd st msg) of
        None \<Rightarrow> []
      | Some error \<Rightarrow>
          (case error_throws rd of
             Some e \<Rightarrow> []
           | None \<Rightarrow>
               [LogText ConsumerLogger ERROR
                  (''Error processing database change: '' @ err_message error)]))"
  by (simp add: processChange_def Let_def split: option.splits)

lemma processChange_snapshots_try:
  "filter is_snapshot (logged (processChange eng rd st msg)) =
   filter is_snapshot (logged (processChange_try eng rd st msg))"
  by (simp add: processChange_logged split: option.splits)

lemma changes_error_line: "changes (xs @ [LogText ConsumerLogger ERROR l]) = changes xs"
  by (induction xs rule: changes.induct) simp_all

lemma processChange_changes_try:
  "changes (logged (processChange eng rd st msg)) =
   changes (logged (processChange_try eng rd st msg))"
  by (simp add: processChange_logged changes_error_line split: option.splits)

lemma processChange_count:
  "processedCount (proc (processChange eng rd st msg)) = processedCount st \<or>
   processedCount (proc (processChange eng rd st msg)) = processedCount st + 1"
  by (cases rule: processChange_try_cases[of eng rd st msg]) (simp_all add: processChange_proc)

lemma processChange_snapshots:
  "stats_throws rd = None \<Longrightarrow>
   snapshots (logged (processChange eng rd st msg)) =
     (if processedCount (proc (processChange eng rd st msg)) = processedCount st + 1 \<and>
         (processedCount st + 1) mod 10 = 0
      then [LogJson ConsumerLogger INFO ''Processing statistics: ''
              (stats_object eng rd (proc (processChange eng rd st msg)))]
      else [])"
  by (cases rule: processChange_try_cases[of eng rd st msg])
     (simp_all add: processChange_proc processChange_snapshots_try snapshots_def)

lemma div10_step: "((c::nat) + 1) div 10 = c div 10 + (if (c + 1) mod 10 = 0 then 1 else 0)"
  by presburger

lemma processChange_snapshot_count:
  assumes "stats_throws rd = None"
  shows "length (snapshots (logged (processChange eng rd st msg))) + processedCount st div 10 =
         processedCount (proc (processChange eng rd st msg)) div 10"
proof -
  consider "processedCount (proc (processChange eng rd st msg)) = processedCount st"
    | "processedCount (proc (processChange eng rd st msg)) = processedCount st + 1"
    using processChange_count by blast
  then show ?thesis
  proof cases
    case 1
    then show ?thesis using processChange_snapshots[OF assms, of eng st msg] by simp
  next
    case 2
    then show ?thesis
      using processChange_snapshots[OF assms, of eng st msg] div10_step[of "processedCount st"]
      by (simp split: if_splits)
  qed
qed

lemma eachMessage_snapshot_count:
  assumes "stats_throws (d_reading d) = None"
  shows "length (snapshots (logged (eachMessage eng st d))) + processedCount st div 10 =
         processedCount (proc (eachMessage eng st d)) div 10"
proof (cases "received_throws d")
  case None
  then show ?thesis
    using processChange_snapshot_count[OF assms, of eng st "d_message d"]
    by (simp add: eachMessage_def Let_def snapshots_def)
next
  case (Some e)
  then show ?thesis by (simp add: eachMessage_def snapshots_def)
qed

lemma deliver_effect:
  "status s = RUNNING \<Longrightarrow>
   lines (deliver eng s d) = lines s @ logged (eachMessage eng (worker s) d) \<and>
   worker (deliver eng s d) = proc (eachMessage eng (worker s) d)"
  by (simp add: deliver_def Let_def split: option.splits)

lemma deliver_returned:
  "status s = RUNNING \<Longrightarrow> thrown (eachMessage eng (worker s) d) = None \<Longrightarrow>
   deliver eng s d =
     s\<lparr>position := position s + 1, worker := proc (eachMessage eng (worker s) d),
       lines := lines s @ logged (eachMessage eng (worker s) d)\<rparr>"
  by (simp add: deliver_def Let_def)

lemma deliver_snapshot_count:
  assumes "stats_throws (d_reading d) = None"
  shows "length (snapshots (lines (deliver eng s d))) + processedCount (worker s) div 10 =
         length (snapshots (lines s)) + processedCount (worker (deliver eng s d)) div 10"
proof (cases "status s = RUNNING")
  case False
  then show ?thesis by (simp add: deliver_def)
next
  case True
  have "snapshots (lines (deliver eng s d)) =
          snapshots (lines s) @ snapshots (logged (eachMessage eng (worker s) d))"
    using deliver_effect[OF True, of eng d] by (simp add: snapshots_def)
  moreover have "worker (deliver eng s d) = proc (eachMessage eng (worker s) d)"
    using deliver_effect[OF True, of eng d] by simp
  ultimately show ?thesis
    using eachMessage_snapshot_count[OF assms, of eng "worker s"] by simp
qed

lemma run_loop_Cons: "run_loop eng s (d # ds) = run_loop eng (deliver eng s d) ds"
  by (simp add: run_loop_def)

lemma run_loop_snapshot_count:
  "\<forall>d\<in>set ds. stats_throws (d_reading d) = None \<Longrightarrow>
   length (snapshots (lines (run_loop eng s ds))) + processedCount (worker s) div 10 =
   length (snapshots (lines s)) + processedCount (worker (run_loop eng s ds)) div 10"
proof (induction ds arbitrary: s)
  case Nil
  then show ?case by (simp add: run_loop_def)
next
  case (Cons d ds)
  have step: "length (snapshots (lines (deliver eng s d))) + processedCount (worker s) div 10 =
         length (snapshots (lines s)) + processedCount (worker (deliver eng s d)) div 10"
    using Cons.prems by (simp add: deliver_snapshot_count)
  have rest: "length (snapshots (lines (run_loop eng (deliver eng s d) ds))) +
                processedCount (worker (deliver eng s d)) div 10 =
              length (snapshots (lines (deliver eng s d))) +
                processedCount (worker (run_loop eng (deliver eng s d) ds)) div 10"
    using Cons.IH[of "deliver eng s d"] Cons.prems by simp
  show ?case using step rest by (simp add: run_loop_Cons)
qed

lemma eachMessage_returns:
  "received_throws d = None \<Longrightarrow> error_throws (d_reading d) = None \<Longrightarrow>
   thrown (eachMessage eng st d) = None"
  by (simp add: eachMessage_def Let_def processChange_thrown split: option.splits)

lemma run_loop_running:
  "status s = RUNNING \<Longrightarrow>
   \<forall>d\<in>set ds. received_throws d = None \<and> error_throws (d_reading d) = None \<Longrightarrow>
   status (run_loop eng s ds) = RUNNING \<and> position (run_loop eng s ds) = position s + length ds"
proof (induction ds arbitrary: s)
  case Nil
  then show ?case by (simp add: run_loop_def)
next
  case (Cons d ds)
  have t: "thrown (eachMessage eng (worker s) d) = None"
    using Cons.prems(2) by (simp add: eachMessage_returns)
  have "status (deliver eng s d) = RUNNING" "position (deliver eng s d) = position s + 1"
    using Cons.prems(1) t by (simp_all add: deliver_returned)
  moreover have "\<forall>d\<in>set ds. received_throws d = None \<and> error_throws (d_reading d) = None"
    using Cons.prems(2) by simp
  ultimately show ?case
    using Cons.IH[of "deliver eng s d"] by (simp add: run_loop_Cons)
qed

text \<open>
  The status and the processor after a run depend on the state before it only through the
  status and the processor.
\<close>

lemma deliver_worker_cong:
  assumes "status s' = status s" and "worker s' = worker s"
  shows "status (deliver eng s' d) = status (deliver eng s d)"
    and "worker (deliver eng s' d) = worker (deliver eng s d)"
proof -
  show "status (deliver eng s' d) = status (deliver eng s d)"
  proof (cases "status s = RUNNING")
    case True
    then have "status s' = RUNNING" using assms(1) by simp
    then show ?thesis using True
      by (cases "thrown (eachMessage eng (worker s) d)")
         (simp_all add: deliver_def Let_def assms(2))
  next
    case False
    then have "status s' \<noteq> RUNNING" using assms(1) by simp
    then show ?thesis using False assms(1) by (simp add: deliver_def)
  qed
  show "worker (deliver eng s' d) = worker (deliver eng s d)"
  proof (cases "status s = RUNNING")
    case True
    then have "status s' = RUNNING" using assms(1) by simp
    then show ?thesis using True
      by (cases "thrown (eachMessage eng (worker s) d)")
         (simp_all add: deliver_def Let_def assms(2))
  next
    case False
    then have "status s' \<noteq> RUNNING" using assms(1) by simp
    then show ?thesis using False assms(2) by (simp add: deliver_def)
  qed
qed

lemma run_loop_worker_cong:
  "status s' = status s \<Longrightarrow> worker s' = worker s \<Longrightarrow>
   status (run_loop eng s' ds) = status (run_loop eng s ds) \<and>
   worker (run_loop eng s' ds) = worker (run_loop eng s ds)"
proof (induction ds arbitrary: s s')
  case Nil
  then show ?case by (simp add: run_loop_def)
next
  case (Cons d ds)
  have "status (deliver eng s' d) = status (deliver eng s d)"
       "worker (deliver eng s' d) = worker (deliver eng s d)"
    using deliver_worker_cong[OF Cons.prems] by blast+
  then show ?case
    using Cons.IH[of "deliver eng s' d" "deliver eng s d"] by (simp only: run_loop_Cons)
qed

lemma processChange_changes:
  assumes "m_value msg = Some payload"
      and "JSON_parse eng payload = Inr changeData"
      and "\<not> nullish changeData"
      and "calculateLatency eng (t_latency rd) (member changeData ''timestamp'') = Inr latency"
      and "emit_throws rd = None"
  shows "changes (logged (processChange eng rd st msg)) =
           [processedChange eng rd changeData latency]"
    and "processedCount (proc (processChange eng rd st msg)) = processedCount st + 1"
  using assms
  by (simp_all add: processChange_def processChange_try_def Let_def split: option.splits)

lemma processChange_malformed:
  assumes "m_value msg = Some payload"
      and "JSON_parse eng payload = Inl e"
      and "error_throws rd = None"
  shows "processChange eng rd st msg =
           \<lparr>proc = st,
            logged = [LogText ConsumerLogger ERROR
                        (''Error processing database change: '' @ err_message e)],
            thrown = None\<rparr>"
  using assms by (simp add: processChange_def processChange_try_def)

lemma exponent_bounds:
  assumes "x \<noteq> 0"
  shows "2 powi (exponent x) \<le> \<bar>x\<bar>" and "\<bar>x\<bar> < 2 powi (exponent x + 1)"
proof -
  obtain p q where pq: "quotient_of \<bar>x\<bar> = (p, q)" by (cases "quotient_of \<bar>x\<bar>")
  have q: "0 < q" using pq by (rule quotient_of_denom_pos)
  have x: "\<bar>x\<bar> = of_int p / of_int q" using pq by (simp add: quotient_of_div)
  have p: "0 < p"
  proof -
    have "0 < \<bar>x\<bar>" using assms by simp
    then have "0 < (of_int p :: rat) / of_int q" using x by simp
    then show ?thesis using q by (simp add: zero_less_divide_iff)
  qed
  let ?d = "bitlen p - bitlen q"
  have bp: "2 ^ nat (bitlen p - 1) \<le> p" "p < 2 ^ nat (bitlen p)" using bitlen_bounds[OF p] by simp_all
  have bq: "2 ^ nat (bitlen q - 1) \<le> q" "q < 2 ^ nat (bitlen q)" using bitlen_bounds[OF q] by simp_all
  have p1: "1 \<le> bitlen p" using p by (simp add: bitlen_alt_def)
  have q1: "1 \<le> bitlen q" using q by (simp add: bitlen_alt_def)
  have P: "(2::rat) powi (bitlen p - 1) \<le> of_int p" "(of_int p :: rat) < 2 powi (bitlen p)"
  proof -
    have "(of_int (2 ^ nat (bitlen p - 1)) :: rat) \<le> of_int p" using bp(1) by (simp only: of_int_le_iff)
    then show "(2::rat) powi (bitlen p - 1) \<le> of_int p" using p1 by (simp add: power_int_def)
    have "(of_int p :: rat) < of_int (2 ^ nat (bitlen p))" using bp(2) by (simp only: of_int_less_iff)
    then show "(of_int p :: rat) < 2 powi (bitlen p)" using p1 by (simp add: power_int_def)
  qed
  have Q: "(2::rat) powi (bitlen q - 1) \<le> of_int q" "(of_int q :: rat) < 2 powi (bitlen q)"
  proof -
    have "(of_int (2 ^ nat (bitlen q - 1)) :: rat) \<le> of_int q" using bq(1) by (simp only: of_int_le_iff)
    then show "(2::rat) powi (bitlen q - 1) \<le> of_int q" using q1 by (simp add: power_int_def)
    have "(of_int q :: rat) < of_int (2 ^ nat (bitlen q))" using bq(2) by (simp only: of_int_less_iff)
    then show "(of_int q :: rat) < 2 powi (bitlen q)" using q1 by (simp add: power_int_def)
  qed
  have qpos: "(0::rat) < of_int q" using q by simp
  have upper: "\<bar>x\<bar> < 2 powi (?d + 1)"
  proof -
    have "(of_int p :: rat) < 2 powi (bitlen p)" by (rule P(2))
    also have "\<dots> = 2 powi (?d + 1) * 2 powi (bitlen q - 1)"
      by (simp add: power_int_add [symmetric])
    also have "\<dots> \<le> 2 powi (?d + 1) * of_int q"
      using Q(1) by (intro mult_left_mono) simp_all
    finally show ?thesis using qpos by (simp add: x pos_divide_less_eq)
  qed
  have lower: "2 powi (?d - 1) \<le> \<bar>x\<bar>"
  proof -
    have "(2::rat) powi (?d - 1) * of_int q \<le> 2 powi (?d - 1) * 2 powi (bitlen q)"
      using Q(2) by (intro mult_left_mono) simp_all
    also have "\<dots> = 2 powi (bitlen p - 1)"
      by (simp add: power_int_add [symmetric])
    also have "\<dots> \<le> of_int p" by (rule P(1))
    finally show ?thesis using qpos by (simp add: x pos_le_divide_eq)
  qed
  have e: "exponent x = (if 2 powi ?d \<le> \<bar>x\<bar> then ?d else ?d - 1)"
    by (simp add: exponent_def pq Let_def)
  show "2 powi (exponent x) \<le> \<bar>x\<bar>"
    using lower by (simp add: e)
  show "\<bar>x\<bar> < 2 powi (exponent x + 1)"
    using upper by (auto simp add: e not_le)
qed

lemma exponent_less:
  assumes "x \<noteq> 0" and "\<bar>x\<bar> < 2 powi k"
  shows "exponent x < k"
proof (rule ccontr)
  assume "\<not> exponent x < k"
  then have "k \<le> exponent x" by simp
  then have "(2::rat) powi k \<le> 2 powi (exponent x)"
    by (intro power_int_increasing) simp_all
  also have "\<dots> \<le> \<bar>x\<bar>" using exponent_bounds(1)[OF assms(1)] .
  finally show False using assms(2) by simp
qed

lemma round_half_even_error: "\<bar>of_int (round_half_even y) - y\<bar> \<le> 1 / 2"
proof -
  have "of_int \<lfloor>y\<rfloor> \<le> y" "y < of_int \<lfloor>y\<rfloor> + 1" by linarith+
  then show ?thesis
    by (auto simp add: round_half_even_def Let_def abs_le_iff)
qed

lemma round_half_even_int: "round_half_even (of_int k) = k"
  by (simp add: round_half_even_def Let_def)

lemma fl_value:
  assumes "x \<noteq> 0" and "\<bar>x\<bar> < 2 powi 1023"
  shows "fl x =
           Fin (of_int (round_half_even (x / 2 powi (max (exponent x) (- 1022) - 52))) *
                2 powi (max (exponent x) (- 1022) - 52))"
    and "\<bar>of_int (round_half_even (x / 2 powi (max (exponent x) (- 1022) - 52))) *
            2 powi (max (exponent x) (- 1022) - 52) - x\<bar>
           \<le> 2 powi (max (exponent x) (- 1022) - 53)"
proof -
  define e where "e = max (exponent x) (- 1022)"
  define u :: rat where "u = 2 powi (e - 52)"
  define r where "r = of_int (round_half_even (x / u)) * u"
  have upos: "0 < u" by (simp add: u_def)
  have e1: "exponent x < 1023" using exponent_less[OF assms] .
  then have e2: "e \<le> 1022" by (simp add: e_def)
  have half: "u / 2 = 2 powi (e - 53)"
  proof -
    have "(2::rat) powi (e - 52) = 2 powi ((e - 53) + 1)" by (simp add: algebra_simps)
    also have "\<dots> = 2 powi (e - 53) * 2 powi 1" by (rule power_int_add) simp
    finally show ?thesis by (simp add: u_def)
  qed
  have err: "\<bar>r - x\<bar> \<le> u / 2"
  proof -
    have "r - x = (of_int (round_half_even (x / u)) - x / u) * u"
      using upos by (simp add: r_def field_simps)
    then have "\<bar>r - x\<bar> = \<bar>of_int (round_half_even (x / u)) - x / u\<bar> * u"
      using upos by (simp add: abs_mult)
    also have "\<dots> \<le> (1 / 2) * u"
      using round_half_even_error[of "x / u"] upos by (intro mult_right_mono) simp_all
    finally show ?thesis by simp
  qed
  have ule: "u \<le> 2 powi 970"
    unfolding u_def using e2 by (intro power_int_increasing) simp_all
  have rb: "\<bar>r\<bar> < 2 powi 1024"
  proof -
    have "\<bar>r\<bar> \<le> \<bar>x\<bar> + \<bar>r - x\<bar>" by simp
    also have "\<dots> < 2 powi 1023 + u / 2" using assms(2) err by simp
    also have "\<dots> \<le> 2 powi 1023 + 2 powi 1023"
    proof -
      have "u / 2 \<le> u" using upos by simp
      also have "\<dots> \<le> 2 powi 970" by (rule ule)
      also have "\<dots> \<le> (2::rat) powi 1023" by (intro power_int_increasing) simp_all
      finally show ?thesis by simp
    qed
    also have "\<dots> = (2::rat) powi 1024"
    proof -
      have "(2::rat) powi 1024 = 2 powi (1023 + 1)" by simp
      also have "\<dots> = 2 powi 1023 * 2 powi 1" by (rule power_int_add) simp
      finally show ?thesis by simp
    qed
    finally show ?thesis .
  qed
  have no_over: "\<not> (r \<noteq> 0 \<and> 1024 \<le> exponent r)"
  proof
    assume a: "r \<noteq> 0 \<and> 1024 \<le> exponent r"
    then have "exponent r < 1024" using exponent_less[of r 1024] rb by simp
    then show False using a by simp
  qed
  have "fl x = (if r \<noteq> 0 \<and> 1024 \<le> exponent r then (if 0 < x then PosInf else NegInf)
                else Fin r)"
    using assms(1) unfolding fl_def Let_def r_def u_def e_def by simp
  then have "fl x = Fin r"
    by (simp only: no_over if_False)
  then show "fl x =
           Fin (of_int (round_half_even (x / 2 powi (max (exponent x) (- 1022) - 52))) *
                2 powi (max (exponent x) (- 1022) - 52))"
    by (simp only: r_def u_def e_def)
  show "\<bar>of_int (round_half_even (x / 2 powi (max (exponent x) (- 1022) - 52))) *
            2 powi (max (exponent x) (- 1022) - 52) - x\<bar>
           \<le> 2 powi (max (exponent x) (- 1022) - 53)"
    using err half by (simp only: r_def u_def e_def)
qed

text \<open>
  Dividing a number of milliseconds by 1000 and rounding the quotient gives the whole
  seconds that exact arithmetic gives, for any span of time below \<open>2^50\<close> milliseconds.
\<close>

lemma round_seconds:
  fixes a :: int
  assumes "\<bar>a\<bar> < 2 ^ 50"
  shows "Math_round (js_div (Fin (of_int a)) (Fin 1000)) = Fin (of_int ((a + 500) div 1000))"
proof (cases "a = 0")
  case True
  have "\<lfloor>(1 / 2 :: rat)\<rfloor> = 0" by (simp add: floor_eq_iff)
  then show ?thesis using True by (simp add: fl_def)
next
  case False
  define x :: rat where "x = of_int a / 1000"
  define k where "k = (a + 500) div 1000"
  define e where "e = max (exponent x) (- 1022)"
  define u :: rat where "u = 2 powi (e - 52)"
  define r where "r = of_int (round_half_even (x / u)) * u"
  have x0: "x \<noteq> 0" using False by (simp add: x_def)
  have xa: "\<bar>x\<bar> = of_int \<bar>a\<bar> / 1000" by (simp add: x_def)
  have "(of_int \<bar>a\<bar> :: rat) < of_int (2 ^ 50)" using assms by (simp only: of_int_less_iff)
  then have ab: "(of_int \<bar>a\<bar> :: rat) < 2 ^ 50" by simp
  have x41: "\<bar>x\<bar> < 2 powi 41"
  proof -
    have "\<bar>x\<bar> < 2 ^ 50 / 1000" using ab by (simp add: xa)
    also have "\<dots> \<le> (2::rat) ^ 41" by simp
    finally show ?thesis by simp
  qed
  have xbig: "\<bar>x\<bar> < 2 powi 1023"
  proof -
    have "(2::rat) powi 41 \<le> 2 powi 1023" by (intro power_int_increasing) simp_all
    then show ?thesis using x41 by simp
  qed
  have e40: "e \<le> 40"
    using exponent_less[OF x0 x41] by (simp add: e_def)
  have flx: "fl x = Fin r"
    using fl_value(1)[OF x0 xbig] by (simp only: r_def u_def e_def)
  have err: "\<bar>r - x\<bar> \<le> 2 powi (e - 53)"
    using fl_value(2)[OF x0 xbig] by (simp only: r_def u_def e_def)
  have small: "(2::rat) powi (e - 53) \<le> 1 / 8192"
  proof -
    have "(2::rat) powi (e - 53) \<le> 2 powi (- 13)"
      using e40 by (intro power_int_increasing) simp_all
    also have "\<dots> = 1 / 8192" by (simp add: power_int_minus)
    finally show ?thesis .
  qed
  have close: "\<bar>r - x\<bar> \<le> 1 / 8192" using err small by simp
  have c1: "r \<le> x + 1 / 8192" and c2: "x - 1 / 8192 \<le> r"
    using close by (auto simp only: abs_le_iff)
  have k1: "1000 * k \<le> a + 500" and k2: "a + 500 < 1000 * k + 1000"
    unfolding k_def by (simp_all add: algebra_simps)
  have upper: "r + 1 / 2 < of_int k + 1"
  proof -
    have "a \<le> 1000 * k + 499" using k2 by simp
    then have "(of_int a :: rat) \<le> of_int (1000 * k + 499)" by (simp only: of_int_le_iff)
    then have "x \<le> of_int k + 499 / 1000" by (simp add: x_def field_simps)
    then show ?thesis using c1 by linarith
  qed
  have lower: "of_int k \<le> r + 1 / 2"
  proof (cases "a + 500 = 1000 * k")
    case False
    then have "1000 * k - 499 \<le> a" using k1 by simp
    then have "(of_int (1000 * k - 499) :: rat) \<le> of_int a" by (simp only: of_int_le_iff)
    then have "of_int k - 499 / 1000 \<le> x" by (simp add: x_def field_simps)
    then show ?thesis using c2 by linarith
  next
    case True
    then have "(of_int a :: rat) = of_int (1000 * k - 500)" by simp
    then have xk: "x = of_int (2 * k - 1) / 2" by (simp add: x_def field_simps)
    have up: "1 / u = 2 * 2 ^ nat (51 - e)"
    proof -
      have "1 / u = inverse (2 powi (e - 52))" by (simp add: u_def inverse_eq_divide)
      also have "\<dots> = 2 powi (- (e - 52))" by (simp only: power_int_minus)
      also have "\<dots> = 2 powi (1 + (51 - e))" by (simp add: algebra_simps)
      also have "\<dots> = 2 powi 1 * 2 powi (51 - e)" by (rule power_int_add) simp
      also have "\<dots> = 2 * 2 ^ nat (51 - e)" using e40 by (simp add: power_int_def)
      finally show ?thesis .
    qed
    have "x / u = x * (1 / u)" by simp
    also have "\<dots> = of_int (2 * k - 1) * 2 ^ nat (51 - e)" by (simp only: up xk)
    also have "\<dots> = of_int ((2 * k - 1) * 2 ^ nat (51 - e))" by simp
    finally have "round_half_even (x / u) = (2 * k - 1) * 2 ^ nat (51 - e)"
      by (simp only: round_half_even_int)
    then have "r = of_int ((2 * k - 1) * 2 ^ nat (51 - e)) * u" by (simp only: r_def)
    also have "\<dots> = of_int (2 * k - 1) * (2 ^ nat (51 - e) * u)" by simp
    also have "2 ^ nat (51 - e) * u = 1 / 2"
      using up by (simp add: field_simps u_def)
    finally have "r = x" by (simp add: xk)
    then show ?thesis by (simp add: xk)
  qed
  have "\<lfloor>r + 1 / 2\<rfloor> = k" using lower upper by (simp add: floor_eq_iff)
  moreover have "js_div (Fin (of_int a)) (Fin 1000) = Fin r"
    using flx by (simp add: x_def)
  ultimately show ?thesis by (simp add: k_def)
qed

lemma sample_step:
  "processChange sample_engine sample_reading \<lparr>processedCount = 9, startTime = 0\<rparr> sample_message =
    \<lparr>proc = \<lparr>processedCount = 10, startTime = 0\<rparr>,
     logged =
       [LogJson DatabaseLogger INFO []
          (processedChange sample_engine sample_reading sample_record (Fin 0)),
        LogJson ConsumerLogger INFO ''Processing statistics: ''
          (stats_object sample_engine sample_reading \<lparr>processedCount = 10, startTime = 0\<rparr>)],
     thrown = None\<rparr>"
  by (simp add: processChange_def processChange_try_def calculateLatency_def sample_engine_def
      sample_message_def sample_reading_def sample_record_def Let_def)

lemma sample_uptime: "Math_round (js_div (Fin 7500) (Fin 1000)) = Fin 8"
  by code_simp

lemma sample_rate:
  "js_div
     (Math_round
       (js_mul (js_div (Fin 10) (js_div (js_div (Fin 7500) (Fin 1000)) (Fin 60))) (Fin 100)))
     (Fin 100) = Fin 80"
  by code_simp

lemma sample_spec_rate: "spec_rate (Fin 10) (Fin 8) = Fin 75"
  unfolding spec_rate_def round2_def by code_simp

text \<open>
  The rate is computed in doubles: after 30 records in 115200 ms the product is just below
  1562.5, so that the rate printed is 15.62, where exact arithmetic would give 15.63.
\<close>

lemma rate_rounds_as_doubles:
  "Math_round
     (js_mul (js_div (Fin 30) (js_div (js_div (Fin 115200) (Fin 1000)) (Fin 60))) (Fin 100)) =
   Fin 1562"
  by code_simp

lemma eachMessage_malformed:
  assumes "m_value (d_message d) = Some payload"
      and "JSON_parse eng payload = Inl e"
      and "received_throws d = None"
      and "error_throws (d_reading d) = None"
  shows "eachMessage eng st d =
           \<lparr>proc = st,
            logged =
              [LogJson KafkaLogger INFO ''Received message: '' (messageInfo eng d),
               LogText ConsumerLogger ERROR
                 (''Error processing database change: '' @ err_message e)],
            thrown = None\<rparr>"
  using assms processChange_malformed[OF assms(1) assms(2) assms(4), of st]
  by (simp add: eachMessage_def Let_def)

lemma eachMessage_processed:
  assumes "m_value (d_message d) = Some payload"
      and "JSON_parse eng payload = Inr changeData"
      and "\<not> nullish changeData"
      and "calculateLatency eng (t_latency (d_reading d)) (member changeData ''timestamp'') =
             Inr latency"
      and "emit_throws (d_reading d) = None"
      and "received_throws d = None"
      and "error_throws (d_reading d) = None"
  shows "thrown (eachMessage eng st d) = None"
    and "changes (logged (eachMessage eng st d)) =
           [processedChange eng (d_reading d) changeData latency]"
    and "processedCount (proc (eachMessage eng st d)) = processedCount st + 1"
proof -
  show "thrown (eachMessage eng st d) = None"
    using assms(6) assms(7) by (rule eachMessage_returns)
  show "changes (logged (eachMessage eng st d)) =
           [processedChange eng (d_reading d) changeData latency]"
    using processChange_changes(1)[OF assms(1) assms(2) assms(3) assms(4) assms(5), of st] assms(6)
    by (simp add: eachMessage_def Let_def)
  show "processedCount (proc (eachMessage eng st d)) = processedCount st + 1"
    using processChange_changes(2)[OF assms(1) assms(2) assms(3) assms(4) assms(5), of st] assms(6)
    by (simp add: eachMessage_def Let_def)
qed

lemma changes_append: "changes (xs @ ys) = changes xs @ changes ys"
  by (induction xs rule: changes.induct) simp_all

lemma processChange_caught:
  "processChange_try eng rd st msg = \<lparr>proc = st', logged = ls, thrown = Some error\<rparr> \<Longrightarrow>
   processChange eng rd st msg = caught rd st' ls error"
  by (simp add: processChange_def caught_def split: option.splits)

subsection \<open>Latency\<close>

text \<open>
  C2. For a change record whose timestamp is a valid date with time value \<open>t\<close>,
  \<open>calculateLatency\<close> returns \<open>max(0, now - t)\<close>: a number that is never negative, and
  zero when the timestamp lies in the future. When such a record arrives as the payload of
  a message, the object that \<open>processChange\<close> logs for it carries this number as its
  \<open>processingLatency\<close>.
\<close>

theorem calculateLatency_clamped:
  "new_Date eng (member changeData ''timestamp'') = Inr (TimeValue t) \<Longrightarrow>
     calculateLatency eng now (member changeData ''timestamp'') =
       Inr (Fin (of_int (max 0 (now - t)))) \<and>
     (\<forall>l. calculateLatency eng now (member changeData ''timestamp'') = Inr l \<longrightarrow> js_nonneg l) \<and>
     (now < t \<longrightarrow> calculateLatency eng now (member changeData ''timestamp'') = Inr (Fin 0)) \<and>
     (m_value msg = Some payload \<and> JSON_parse eng payload = Inr changeData \<and>
      \<not> nullish changeData \<and> emit_throws rd = None \<longrightarrow>
        changes (logged (processChange eng rd st msg)) =
          [processedChange eng rd changeData (Fin (of_int (max 0 (t_latency rd - t))))] \<and>
        member (processedChange eng rd changeData (Fin (of_int (max 0 (t_latency rd - t)))))
          ''processingLatency'' = JNum (Fin (of_int (max 0 (t_latency rd - t)))))"
proof -
  assume d: "new_Date eng (member changeData ''timestamp'') = Inr (TimeValue t)"
  have a: "\<And>n. calculateLatency eng n (member changeData ''timestamp'') =
             Inr (Fin (of_int (max 0 (n - t))))"
    using d by (simp add: calculateLatency_def max_def)
  have b: "\<forall>l. calculateLatency eng now (member changeData ''timestamp'') = Inr l \<longrightarrow>
             js_nonneg l"
    by (simp add: a)
  have c: "now < t \<longrightarrow> calculateLatency eng now (member changeData ''timestamp'') = Inr (Fin 0)"
    by (simp add: a)
  have e: "m_value msg = Some payload \<and> JSON_parse eng payload = Inr changeData \<and>
      \<not> nullish changeData \<and> emit_throws rd = None \<longrightarrow>
        changes (logged (processChange eng rd st msg)) =
          [processedChange eng rd changeData (Fin (of_int (max 0 (t_latency rd - t))))] \<and>
        member (processedChange eng rd changeData (Fin (of_int (max 0 (t_latency rd - t)))))
          ''processingLatency'' = JNum (Fin (of_int (max 0 (t_latency rd - t))))"
  proof
    assume h: "m_value msg = Some payload \<and> JSON_parse eng payload = Inr changeData \<and>
      \<not> nullish changeData \<and> emit_throws rd = None"
    have "changes (logged (processChange eng rd st msg)) =
          [processedChange eng rd changeData (Fin (of_int (max 0 (t_latency rd - t))))]"
      using h a [of "t_latency rd"]
      by (intro processChange_changes(1) [where payload = payload]) simp_all
    moreover have
      "member (processedChange eng rd changeData (Fin (of_int (max 0 (t_latency rd - t)))))
          ''processingLatency'' = JNum (Fin (of_int (max 0 (t_latency rd - t))))"
      by (simp add: processedChange_def)
    ultimately show
      "changes (logged (processChange eng rd st msg)) =
          [processedChange eng rd changeData (Fin (of_int (max 0 (t_latency rd - t))))] \<and>
        member (processedChange eng rd changeData (Fin (of_int (max 0 (t_latency rd - t)))))
          ''processingLatency'' = JNum (Fin (of_int (max 0 (t_latency rd - t))))"
      by (rule conjI)
  qed
  show ?thesis using a [of now] b c e by (intro conjI)
qed

theorem calculateLatency_clamped_witness:
  "new_Date sample_engine (member sample_record ''timestamp'') = Inr (TimeValue 2000) \<and>
   calculateLatency sample_engine 1501 (member sample_record ''timestamp'') = Inr (Fin 0) \<and>
   changes (logged (processChange sample_engine sample_reading (new_processor 0) sample_message)) =
     [processedChange sample_engine sample_reading sample_record (Fin 0)]"
proof -
  have h: "new_Date sample_engine (member sample_record ''timestamp'') = Inr (TimeValue 2000)"
    by (simp add: sample_engine_def sample_record_def)
  have g: "m_value sample_message = Some ''{\"timestamp\":\"T\",\"table\":\"users\"}'' \<and>
           JSON_parse sample_engine ''{\"timestamp\":\"T\",\"table\":\"users\"}'' = Inr sample_record \<and>
           \<not> nullish sample_record \<and> emit_throws sample_reading = None"
    by (simp add: sample_message_def sample_engine_def sample_record_def sample_reading_def)
  note t = calculateLatency_clamped [OF h, where now = 1501 and rd = sample_reading
             and msg = sample_message and st = "new_processor 0"
             and payload = "''{\"timestamp\":\"T\",\"table\":\"users\"}''"]
  have l: "calculateLatency sample_engine 1501 (member sample_record ''timestamp'') = Inr (Fin 0)"
    using t [THEN conjunct1] by simp
  have "changes (logged (processChange sample_engine sample_reading (new_processor 0)
                   sample_message)) =
          [processedChange sample_engine sample_reading sample_record
             (Fin (of_int (max 0 (t_latency sample_reading - 2000))))]"
    using t [THEN conjunct2, THEN conjunct2, THEN conjunct2] g by blast
  then have c: "changes (logged (processChange sample_engine sample_reading (new_processor 0)
                   sample_message)) =
          [processedChange sample_engine sample_reading sample_record (Fin 0)]"
    by (simp add: sample_reading_def)
  show ?thesis using h l c by (intro conjI)
qed

text \<open>
  Beside the claim: a timestamp that is not a valid date (a record without one, say) makes
  the latency not-a-number, which is not at least 0.
\<close>

lemma calculateLatency_invalid_date:
  "new_Date eng originalTimestamp = Inr InvalidDate \<Longrightarrow>
   calculateLatency eng now originalTimestamp = Inr NaN \<and> \<not> js_nonneg NaN"
  by (simp add: calculateLatency_def)

subsection \<open>Statistics\<close>

text \<open>
  C3, as the code has it. A statistics snapshot is logged exactly when the counter reaches
  a multiple of 10: over any run of the loop the number of snapshots grows by the number
  of multiples of 10 that the counter has passed, and one call of \<open>processChange\<close> logs
  one snapshot when it has moved the counter to a multiple of 10 and none otherwise (the
  statistics logger returning normally). The snapshot reports the counter as
  \<open>totalProcessed\<close> and, as \<open>uptime\<close>, the elapsed milliseconds divided by 1000 and
  rounded to whole seconds. The rate is \<open>totalProcessed / (seconds / 60)\<close> rounded to
  two decimal places (the double nearest to a hundredth of an integer), where \<open>seconds\<close>
  is the elapsed time at a clock reading of its own, in seconds before any rounding: it
  is not computed from the whole seconds that the snapshot reports as \<open>uptime\<close>.
\<close>

theorem statistics_snapshot_every_tenth:
  assumes "\<forall>d\<in>set ds. stats_throws (d_reading d) = None"
      and "stats_throws rd = None"
      and "\<bar>t_uptime rd - startTime st'\<bar> < 2 ^ 50"
  shows "length (snapshots (lines (run_loop eng s ds))) + processedCount (worker s) div 10 =
           length (snapshots (lines s)) + processedCount (worker (run_loop eng s ds)) div 10 \<and>
         snapshots (logged (processChange eng rd st msg)) =
           (if processedCount (proc (processChange eng rd st msg)) = processedCount st + 1 \<and>
               (processedCount st + 1) mod 10 = 0
            then [LogJson ConsumerLogger INFO ''Processing statistics: ''
                    (stats_object eng rd (proc (processChange eng rd st msg)))]
            else []) \<and>
         member (stats_object eng rd st') ''totalProcessed'' =
           JNum (Fin (of_nat (processedCount st'))) \<and>
         member (stats_object eng rd st') ''uptime'' =
           JNum (Fin (of_int ((t_uptime rd - startTime st' + 500) div 1000))) \<and>
         member (stats_object eng rd st') ''averageProcessingRate'' =
           JNum (spec_rate (Fin (of_nat (processedCount st')))
                   (js_div (Fin (of_int (t_rate rd - startTime st'))) (Fin 1000))) \<and>
         (\<forall>q. js_mul
                (js_div (Fin (of_nat (processedCount st')))
                   (js_div (js_div (Fin (of_int (t_rate rd - startTime st'))) (Fin 1000))
                      (Fin 60)))
                (Fin 100) = Fin q \<longrightarrow>
              member (stats_object eng rd st') ''averageProcessingRate'' =
                JNum (fl (of_int \<lfloor>q + 1 / 2\<rfloor> / 100)))"
proof -
  have a: "length (snapshots (lines (run_loop eng s ds))) + processedCount (worker s) div 10 =
           length (snapshots (lines s)) + processedCount (worker (run_loop eng s ds)) div 10"
    using assms(1) by (rule run_loop_snapshot_count)
  have b: "snapshots (logged (processChange eng rd st msg)) =
           (if processedCount (proc (processChange eng rd st msg)) = processedCount st + 1 \<and>
               (processedCount st + 1) mod 10 = 0
            then [LogJson ConsumerLogger INFO ''Processing statistics: ''
                    (stats_object eng rd (proc (processChange eng rd st msg)))]
            else [])"
    using assms(2) by (rule processChange_snapshots)
  have c: "member (stats_object eng rd st') ''totalProcessed'' =
           JNum (Fin (of_nat (processedCount st')))"
    by (simp add: stats_object_def)
  have d: "member (stats_object eng rd st') ''uptime'' =
           JNum (Fin (of_int ((t_uptime rd - startTime st' + 500) div 1000)))"
    using round_seconds[OF assms(3)] by (simp add: stats_object_def)
  have e: "member (stats_object eng rd st') ''averageProcessingRate'' =
           JNum (spec_rate (Fin (of_nat (processedCount st')))
                   (js_div (Fin (of_int (t_rate rd - startTime st'))) (Fin 1000)))"
    by (simp add: stats_object_def spec_rate_def round2_def)
  have f: "\<forall>q. js_mul
                (js_div (Fin (of_nat (processedCount st')))
                   (js_div (js_div (Fin (of_int (t_rate rd - startTime st'))) (Fin 1000))
                      (Fin 60)))
                (Fin 100) = Fin q \<longrightarrow>
              member (stats_object eng rd st') ''averageProcessingRate'' =
                JNum (fl (of_int \<lfloor>q + 1 / 2\<rfloor> / 100))"
    by (simp add: stats_object_def)
  show ?thesis using a b c d e f by (intro conjI)
qed

theorem statistics_snapshot_every_tenth_witness:
  "length (snapshots (lines (run_loop sample_engine ninth [sample_delivery]))) = 1 \<and>
   member (stats_object sample_engine sample_reading \<lparr>processedCount = 10, startTime = 0\<rparr>)
     ''totalProcessed'' = JNum (Fin 10) \<and>
   member (stats_object sample_engine sample_reading \<lparr>processedCount = 10, startTime = 0\<rparr>)
     ''uptime'' = JNum (Fin 8) \<and>
   member (stats_object sample_engine sample_reading \<lparr>processedCount = 10, startTime = 0\<rparr>)
     ''averageProcessingRate'' = JNum (Fin 80)"
proof -
  let ?st10 = "\<lparr>processedCount = 10, startTime = 0\<rparr>"
  have h1: "\<forall>d\<in>set [sample_delivery]. stats_throws (d_reading d) = None"
    by (simp add: sample_delivery_def sample_reading_def)
  have h2: "stats_throws sample_reading = None"
    by (simp add: sample_reading_def)
  have h3: "\<bar>t_uptime sample_reading - startTime ?st10\<bar> < 2 ^ 50"
    by (simp add: sample_reading_def)
  have w: "worker (run_loop sample_engine ninth [sample_delivery]) = ?st10"
    using sample_step
    by (simp add: run_loop_def deliver_def eachMessage_def ninth_def sample_delivery_def Let_def)
  note t = statistics_snapshot_every_tenth [OF h1 h2 h3, of sample_engine ninth
              "\<lparr>processedCount = 9, startTime = 0\<rparr>" sample_message]
  have "length (snapshots (lines (run_loop sample_engine ninth [sample_delivery]))) +
          processedCount (worker ninth) div 10 =
        length (snapshots (lines ninth)) +
          processedCount (worker (run_loop sample_engine ninth [sample_delivery])) div 10"
    using t [THEN conjunct1] .
  then have c1: "length (snapshots (lines (run_loop sample_engine ninth [sample_delivery]))) = 1"
    by (simp add: w) (simp add: ninth_def snapshots_def)
  have c2: "member (stats_object sample_engine sample_reading ?st10) ''totalProcessed'' =
              JNum (Fin 10)"
    using t [THEN conjunct2, THEN conjunct2, THEN conjunct1] by simp
  have c3: "member (stats_object sample_engine sample_reading ?st10) ''uptime'' = JNum (Fin 8)"
    using t [THEN conjunct2, THEN conjunct2, THEN conjunct2, THEN conjunct1]
    by (simp add: sample_reading_def)
  have "member (stats_object sample_engine sample_reading ?st10) ''averageProcessingRate'' =
          JNum (spec_rate (Fin (of_nat (processedCount ?st10)))
                  (js_div (Fin (of_int (t_rate sample_reading - startTime ?st10))) (Fin 1000)))"
    using t [THEN conjunct2, THEN conjunct2, THEN conjunct2, THEN conjunct2, THEN conjunct1] .
  then have c4: "member (stats_object sample_engine sample_reading ?st10)
                   ''averageProcessingRate'' = JNum (Fin 80)"
    using sample_rate by (simp add: sample_reading_def spec_rate_def round2_def)
  show ?thesis using c1 c2 c3 c4 by (intro conjI)
qed

text \<open>
  The claim of C3 that the rate is \<open>totalProcessed / (uptimeSeconds / 60)\<close> of the uptime
  in whole seconds fails: ten records after 7500 ms are reported with an uptime of 8
  seconds and a rate of 80 per minute, where the reported uptime would give 75.
\<close>

theorem rate_not_from_reported_uptime:
  "member (stats_object sample_engine sample_reading \<lparr>processedCount = 10, startTime = 0\<rparr>)
     ''uptime'' = JNum (Fin 8) \<and>
   member (stats_object sample_engine sample_reading \<lparr>processedCount = 10, startTime = 0\<rparr>)
     ''averageProcessingRate'' = JNum (Fin 80) \<and>
   spec_rate (Fin 10) (Fin 8) = Fin 75"
  using sample_uptime sample_rate sample_spec_rate
  by (simp add: stats_object_def sample_reading_def)

text \<open>
  Beside the claim: a snapshot taken in the very millisecond in which the processor was
  created reports an infinite rate.
\<close>

lemma rate_of_zero_uptime:
  "t_rate rd = startTime st \<Longrightarrow> 0 < processedCount st \<Longrightarrow>
   member (stats_object eng rd st) ''averageProcessingRate'' = JNum PosInf"
  by (simp add: stats_object_def fl_def)

subsection \<open>Malformed payloads\<close>

text \<open>
  C4. A message whose payload \<open>JSON.parse\<close> rejects is caught inside \<open>processChange\<close>
  for that record alone (the loggers of the handler and of the \<open>catch\<close> clause returning
  normally): the loop logs the reception and one error line with the message of the parse
  error, leaves the processor as it was, stays in \<open>RUNNING\<close> and advances the offset by
  one. The records after it are consumed as if it had not been there: the status and the
  processor after any further run are the same, the offset is one more, and a well-formed
  record that follows is processed, logged as a change and counted.
\<close>

theorem malformed_payload_skipped:
  assumes "status s = RUNNING"
      and "m_value (d_message d) = Some payload"
      and "JSON_parse eng payload = Inl e"
      and "received_throws d = None"
      and "error_throws (d_reading d) = None"
  shows "deliver eng s d =
           s\<lparr>position := position s + 1,
             lines :=
               lines s @
               [LogJson KafkaLogger INFO ''Received message: '' (messageInfo eng d),
                LogText ConsumerLogger ERROR
                  (''Error processing database change: '' @ err_message e)]\<rparr> \<and>
         status (deliver eng s d) = RUNNING \<and>
         worker (deliver eng s d) = worker s \<and>
         status (run_loop eng s (d # ds)) = status (run_loop eng s ds) \<and>
         worker (run_loop eng s (d # ds)) = worker (run_loop eng s ds) \<and>
         ((\<forall>d'\<in>set ds. received_throws d' = None \<and> error_throws (d_reading d') = None) \<longrightarrow>
            status (run_loop eng s (d # ds)) = RUNNING \<and>
            position (run_loop eng s (d # ds)) = position s + 1 + length ds) \<and>
         (m_value (d_message d2) = Some payload2 \<and> JSON_parse eng payload2 = Inr changeData \<and>
          \<not> nullish changeData \<and>
          calculateLatency eng (t_latency (d_reading d2)) (member changeData ''timestamp'') =
            Inr latency \<and>
          emit_throws (d_reading d2) = None \<and> received_throws d2 = None \<and>
          error_throws (d_reading d2) = None \<longrightarrow>
            status (run_loop eng s [d, d2]) = RUNNING \<and>
            position (run_loop eng s [d, d2]) = position s + 2 \<and>
            changes (lines (run_loop eng s [d, d2])) =
              changes (lines s) @ [processedChange eng (d_reading d2) changeData latency] \<and>
            processedCount (worker (run_loop eng s [d, d2])) = processedCount (worker s) + 1)"
proof -
  note em = eachMessage_malformed[OF assms(2) assms(3) assms(4) assms(5), of "worker s"]
  have dl: "deliver eng s d =
           s\<lparr>position := position s + 1,
             lines :=
               lines s @
               [LogJson KafkaLogger INFO ''Received message: '' (messageInfo eng d),
                LogText ConsumerLogger ERROR
                  (''Error processing database change: '' @ err_message e)]\<rparr>"
    using assms(1) by (simp add: deliver_def Let_def em)
  have st: "status (deliver eng s d) = RUNNING" using assms(1) by (simp add: dl)
  have wk: "worker (deliver eng s d) = worker s" by (simp add: dl)
  have po: "position (deliver eng s d) = position s + 1" by (simp add: dl)
  have ln: "changes (lines (deliver eng s d)) = changes (lines s)"
    by (simp add: dl changes_append)
  have cong: "status (run_loop eng s (d # ds)) = status (run_loop eng s ds) \<and>
              worker (run_loop eng s (d # ds)) = worker (run_loop eng s ds)"
    using run_loop_worker_cong[of "deliver eng s d" s eng ds] st wk assms(1)
    by (simp add: run_loop_Cons)
  have run: "(\<forall>d'\<in>set ds. received_throws d' = None \<and> error_throws (d_reading d') = None) \<longrightarrow>
            status (run_loop eng s (d # ds)) = RUNNING \<and>
            position (run_loop eng s (d # ds)) = position s + 1 + length ds"
  proof
    assume a: "\<forall>d'\<in>set ds. received_throws d' = None \<and> error_throws (d_reading d') = None"
    show "status (run_loop eng s (d # ds)) = RUNNING \<and>
          position (run_loop eng s (d # ds)) = position s + 1 + length ds"
      using run_loop_running[OF st a, of eng] po by (simp add: run_loop_Cons)
  qed
  have nxt: "m_value (d_message d2) = Some payload2 \<and> JSON_parse eng payload2 = Inr changeData \<and>
          \<not> nullish changeData \<and>
          calculateLatency eng (t_latency (d_reading d2)) (member changeData ''timestamp'') =
            Inr latency \<and>
          emit_throws (d_reading d2) = None \<and> received_throws d2 = None \<and>
          error_throws (d_reading d2) = None \<longrightarrow>
            status (run_loop eng s [d, d2]) = RUNNING \<and>
            position (run_loop eng s [d, d2]) = position s + 2 \<and>
            changes (lines (run_loop eng s [d, d2])) =
              changes (lines s) @ [processedChange eng (d_reading d2) changeData latency] \<and>
            processedCount (worker (run_loop eng s [d, d2])) = processedCount (worker s) + 1"
  proof
    assume h: "m_value (d_message d2) = Some payload2 \<and> JSON_parse eng payload2 = Inr changeData \<and>
          \<not> nullish changeData \<and>
          calculateLatency eng (t_latency (d_reading d2)) (member changeData ''timestamp'') =
            Inr latency \<and>
          emit_throws (d_reading d2) = None \<and> received_throws d2 = None \<and>
          error_throws (d_reading d2) = None"
    then have h1: "m_value (d_message d2) = Some payload2"
      and h2: "JSON_parse eng payload2 = Inr changeData"
      and h3: "\<not> nullish changeData"
      and h4: "calculateLatency eng (t_latency (d_reading d2)) (member changeData ''timestamp'') =
                 Inr latency"
      and h5: "emit_throws (d_reading d2) = None"
      and h6: "received_throws d2 = None"
      and h7: "error_throws (d_reading d2) = None"
      by blast+
    note ep = eachMessage_processed[OF h1 h2 h3 h4 h5 h6 h7, of "worker s"]
    let ?s1 = "deliver eng s d"
    have d2: "deliver eng ?s1 d2 =
                ?s1\<lparr>position := position ?s1 + 1,
                     worker := proc (eachMessage eng (worker ?s1) d2),
                     lines := lines ?s1 @ logged (eachMessage eng (worker ?s1) d2)\<rparr>"
      using st ep(1) by (intro deliver_returned) (simp_all add: wk)
    have r: "run_loop eng s [d, d2] = deliver eng ?s1 d2" by (simp add: run_loop_def)
    have "status (run_loop eng s [d, d2]) = RUNNING"
      by (simp only: r) (simp add: d2 st)
    moreover have "position (run_loop eng s [d, d2]) = position s + 2"
      by (simp only: r) (simp add: d2 po)
    moreover have "changes (lines (run_loop eng s [d, d2])) =
              changes (lines s) @ [processedChange eng (d_reading d2) changeData latency]"
      by (simp only: r) (simp add: d2 changes_append ln wk ep(2))
    moreover have "processedCount (worker (run_loop eng s [d, d2])) =
                     processedCount (worker s) + 1"
      by (simp only: r) (simp add: d2 wk ep(3))
    ultimately show "status (run_loop eng s [d, d2]) = RUNNING \<and>
            position (run_loop eng s [d, d2]) = position s + 2 \<and>
            changes (lines (run_loop eng s [d, d2])) =
              changes (lines s) @ [processedChange eng (d_reading d2) changeData latency] \<and>
            processedCount (worker (run_loop eng s [d, d2])) = processedCount (worker s) + 1"
      by (intro conjI)
  qed
  show ?thesis using dl st wk cong run nxt by (intro conjI) blast+
qed

theorem malformed_payload_skipped_witness:
  "lines (deliver sample_engine ninth malformed_delivery) =
     [LogJson KafkaLogger INFO ''Received message: ''
        (messageInfo sample_engine malformed_delivery),
      LogText ConsumerLogger ERROR ''Error processing database change: Unexpected token''] \<and>
   status (run_loop sample_engine ninth [malformed_delivery, sample_delivery]) = RUNNING \<and>
   position (run_loop sample_engine ninth [malformed_delivery, sample_delivery]) = 11 \<and>
   changes (lines (run_loop sample_engine ninth [malformed_delivery, sample_delivery])) =
     [processedChange sample_engine sample_reading sample_record (Fin 0)] \<and>
   processedCount (worker (run_loop sample_engine ninth [malformed_delivery, sample_delivery])) =
     10"
proof -
  have h1: "status ninth = RUNNING" by (simp add: ninth_def)
  have h2: "m_value (d_message malformed_delivery) = Some ''not json''"
    by (simp add: malformed_delivery_def malformed_message_def)
  have h3: "JSON_parse sample_engine ''not json'' = Inl (JsError None ''Unexpected token'')"
    by (simp add: sample_engine_def)
  have h4: "received_throws malformed_delivery = None"
    by (simp add: malformed_delivery_def)
  have h5: "error_throws (d_reading malformed_delivery) = None"
    by (simp add: malformed_delivery_def sample_reading_def)
  have g: "m_value (d_message sample_delivery) = Some ''{\"timestamp\":\"T\",\"table\":\"users\"}'' \<and>
           JSON_parse sample_engine ''{\"timestamp\":\"T\",\"table\":\"users\"}'' = Inr sample_record \<and>
           \<not> nullish sample_record \<and>
           calculateLatency sample_engine (t_latency (d_reading sample_delivery))
             (member sample_record ''timestamp'') = Inr (Fin 0) \<and>
           emit_throws (d_reading sample_delivery) = None \<and>
           received_throws sample_delivery = None \<and>
           error_throws (d_reading sample_delivery) = None"
    by (simp add: sample_delivery_def sample_message_def sample_engine_def sample_record_def
          sample_reading_def calculateLatency_def)
  note t = malformed_payload_skipped [OF h1 h2 h3 h4 h5, where ds = "[sample_delivery]"
             and ?d2.0 = sample_delivery
             and ?payload2.0 = "''{\"timestamp\":\"T\",\"table\":\"users\"}''"
             and changeData = sample_record and latency = "Fin 0"]
  have "deliver sample_engine ninth malformed_delivery =
          ninth\<lparr>position := position ninth + 1,
                lines :=
                  lines ninth @
                  [LogJson KafkaLogger INFO ''Received message: ''
                     (messageInfo sample_engine malformed_delivery),
                   LogText ConsumerLogger ERROR
                     (''Error processing database change: '' @
                      err_message (JsError None ''Unexpected token''))]\<rparr>"
    using t [THEN conjunct1] .
  then have a: "lines (deliver sample_engine ninth malformed_delivery) =
     [LogJson KafkaLogger INFO ''Received message: ''
        (messageInfo sample_engine malformed_delivery),
      LogText ConsumerLogger ERROR ''Error processing database change: Unexpected token'']"
    by (simp add: ninth_def)
  have "status (run_loop sample_engine ninth [malformed_delivery, sample_delivery]) = RUNNING \<and>
        position (run_loop sample_engine ninth [malformed_delivery, sample_delivery]) =
          position ninth + 2 \<and>
        changes (lines (run_loop sample_engine ninth [malformed_delivery, sample_delivery])) =
          changes (lines ninth) @
          [processedChange sample_engine (d_reading sample_delivery) sample_record (Fin 0)] \<and>
        processedCount
          (worker (run_loop sample_engine ninth [malformed_delivery, sample_delivery])) =
          processedCount (worker ninth) + 1"
    using t [THEN conjunct2, THEN conjunct2, THEN conjunct2, THEN conjunct2, THEN conjunct2,
             THEN conjunct2] g
    by (rule mp)
  then have b:
    "status (run_loop sample_engine ninth [malformed_delivery, sample_delivery]) = RUNNING \<and>
     position (run_loop sample_engine ninth [malformed_delivery, sample_delivery]) = 11 \<and>
     changes (lines (run_loop sample_engine ninth [malformed_delivery, sample_delivery])) =
       [processedChange sample_engine sample_reading sample_record (Fin 0)] \<and>
     processedCount
       (worker (run_loop sample_engine ninth [malformed_delivery, sample_delivery])) = 10"
    by (simp add: ninth_def sample_delivery_def)
  show ?thesis using a b by (intro conjI) blast+
qed

subsection \<open>Errors inside processChange\<close>

text \<open>
  C9, as the code has it. Every exception of the \<open>try\<close> block of \<open>processChange\<close> is
  caught: a null value, a payload that does not parse, a payload that parses to \<open>null\<close>,
  a timestamp that \<open>new Date\<close> cannot convert, and a throwing log call of the change or
  of the statistics each end in the \<open>catch\<close> clause, which logs the message of the error;
  \<open>processChange\<close> then returns normally, provided that this log call returns normally.
  The log call of the \<open>catch\<close> clause is not guarded: when it throws, its exception
  leaves \<open>processChange\<close>, and that is the only exception that does.
\<close>

theorem processChange_catches_try_errors:
  "thrown (processChange eng rd st msg) =
     (case thrown (processChange_try eng rd st msg) of
        None \<Rightarrow> None
      | Some error \<Rightarrow> error_throws rd) \<and>
   (error_throws rd = None \<longrightarrow> thrown (processChange eng rd st msg) = None) \<and>
   (m_value msg = None \<longrightarrow>
      processChange eng rd st msg = caught rd st [] (cannot_read JNull ''toString'')) \<and>
   (m_value msg = Some payload \<and> JSON_parse eng payload = Inl e \<longrightarrow>
      processChange eng rd st msg = caught rd st [] e) \<and>
   (m_value msg = Some payload \<and> JSON_parse eng payload = Inr changeData \<and>
    nullish changeData \<longrightarrow>
      processChange eng rd st msg = caught rd st [] (cannot_read changeData ''timestamp'')) \<and>
   (m_value msg = Some payload \<and> JSON_parse eng payload = Inr changeData \<and>
    \<not> nullish changeData \<and> new_Date eng (member changeData ''timestamp'') = Inl e \<longrightarrow>
      processChange eng rd st msg = caught rd st [] e) \<and>
   (m_value msg = Some payload \<and> JSON_parse eng payload = Inr changeData \<and>
    \<not> nullish changeData \<and> new_Date eng (member changeData ''timestamp'') = Inr original \<and>
    emit_throws rd = Some e \<longrightarrow>
      processChange eng rd st msg = caught rd st [] e) \<and>
   (m_value msg = Some payload \<and> JSON_parse eng payload = Inr changeData \<and>
    \<not> nullish changeData \<and> new_Date eng (member changeData ''timestamp'') = Inr original \<and>
    emit_throws rd = None \<and> (processedCount st + 1) mod 10 = 0 \<and>
    stats_throws rd = Some e \<longrightarrow>
      processChange eng rd st msg =
        caught rd (st\<lparr>processedCount := processedCount st + 1\<rparr>)
          [LogJson DatabaseLogger INFO []
             (processedChange eng rd changeData
                (Math_max (Fin 0) (date_diff (t_latency rd) original)))]
          e) \<and>
   (m_value msg = Some payload \<and> JSON_parse eng payload = Inr changeData \<and>
    \<not> nullish changeData \<and> new_Date eng (member changeData ''timestamp'') = Inr original \<and>
    emit_throws rd = None \<and>
    ((processedCount st + 1) mod 10 \<noteq> 0 \<or> stats_throws rd = None) \<longrightarrow>
      thrown (processChange eng rd st msg) = None \<and>
      proc (processChange eng rd st msg) = st\<lparr>processedCount := processedCount st + 1\<rparr>)"
proof -
  have a: "thrown (processChange eng rd st msg) =
     (case thrown (processChange_try eng rd st msg) of
        None \<Rightarrow> None
      | Some error \<Rightarrow> error_throws rd)"
    by (rule processChange_thrown)
  have b: "error_throws rd = None \<longrightarrow> thrown (processChange eng rd st msg) = None"
    by (simp add: a split: option.splits)
  have c: "m_value msg = None \<longrightarrow>
      processChange eng rd st msg = caught rd st [] (cannot_read JNull ''toString'')"
    by (auto intro!: processChange_caught simp add: processChange_try_def)
  have d: "m_value msg = Some payload \<and> JSON_parse eng payload = Inl e \<longrightarrow>
      processChange eng rd st msg = caught rd st [] e"
    by (auto intro!: processChange_caught simp add: processChange_try_def)
  have f: "m_value msg = Some payload \<and> JSON_parse eng payload = Inr changeData \<and>
    nullish changeData \<longrightarrow>
      processChange eng rd st msg = caught rd st [] (cannot_read changeData ''timestamp'')"
    by (auto intro!: processChange_caught simp add: processChange_try_def)
  have g: "m_value msg = Some payload \<and> JSON_parse eng payload = Inr changeData \<and>
    \<not> nullish changeData \<and> new_Date eng (member changeData ''timestamp'') = Inl e \<longrightarrow>
      processChange eng rd st msg = caught rd st [] e"
    by (auto intro!: processChange_caught simp add: processChange_try_def calculateLatency_def)
  have h: "m_value msg = Some payload \<and> JSON_parse eng payload = Inr changeData \<and>
    \<not> nullish changeData \<and> new_Date eng (member changeData ''timestamp'') = Inr original \<and>
    emit_throws rd = Some e \<longrightarrow>
      processChange eng rd st msg = caught rd st [] e"
    by (auto intro!: processChange_caught simp add: processChange_try_def calculateLatency_def)
  have i: "m_value msg = Some payload \<and> JSON_parse eng payload = Inr changeData \<and>
    \<not> nullish changeData \<and> new_Date eng (member changeData ''timestamp'') = Inr original \<and>
    emit_throws rd = None \<and> (processedCount st + 1) mod 10 = 0 \<and>
    stats_throws rd = Some e \<longrightarrow>
      processChange eng rd st msg =
        caught rd (st\<lparr>processedCount := processedCount st + 1\<rparr>)
          [LogJson DatabaseLogger INFO []
             (processedChange eng rd changeData
                (Math_max (Fin 0) (date_diff (t_latency rd) original)))]
          e"
    by (auto intro!: processChange_caught
             simp add: processChange_try_def calculateLatency_def Let_def)
  have j: "m_value msg = Some payload \<and> JSON_parse eng payload = Inr changeData \<and>
    \<not> nullish changeData \<and> new_Date eng (member changeData ''timestamp'') = Inr original \<and>
    emit_throws rd = None \<and>
    ((processedCount st + 1) mod 10 \<noteq> 0 \<or> stats_throws rd = None) \<longrightarrow>
      thrown (processChange eng rd st msg) = None \<and>
      proc (processChange eng rd st msg) = st\<lparr>processedCount := processedCount st + 1\<rparr>"
    by (auto simp add: processChange_thrown processChange_proc processChange_try_def
          calculateLatency_def Let_def)
  show ?thesis using a b c d f g h i j by (intro conjI)
qed

theorem processChange_catches_try_errors_witness:
  "processChange sample_engine sample_reading (new_processor 0) malformed_message =
     \<lparr>proc = new_processor 0,
      logged = [LogText ConsumerLogger ERROR ''Error processing database change: Unexpected token''],
      thrown = None\<rparr> \<and>
   processChange sample_engine sample_reading (new_processor 0)
     (sample_message\<lparr>m_value := None\<rparr>) =
     \<lparr>proc = new_processor 0,
      logged =
        [LogText ConsumerLogger ERROR
           ''Error processing database change: Cannot read properties of null (reading 'toString')''],
      thrown = None\<rparr>"
proof -
  note t = processChange_catches_try_errors [of sample_engine sample_reading "new_processor 0"]
  have h1: "m_value malformed_message = Some ''not json'' \<and>
            JSON_parse sample_engine ''not json'' = Inl (JsError None ''Unexpected token'')"
    by (simp add: malformed_message_def sample_engine_def)
  have h2: "m_value (sample_message\<lparr>m_value := None\<rparr>) = None" by simp
  have e: "error_throws sample_reading = None" by (simp add: sample_reading_def)
  have a: "processChange sample_engine sample_reading (new_processor 0) malformed_message =
             caught sample_reading (new_processor 0) [] (JsError None ''Unexpected token'')"
    using t [of malformed_message "''not json''" "JsError None ''Unexpected token''",
             THEN conjunct2, THEN conjunct2, THEN conjunct2, THEN conjunct1] h1
    by (rule mp)
  have b: "processChange sample_engine sample_reading (new_processor 0)
             (sample_message\<lparr>m_value := None\<rparr>) =
             caught sample_reading (new_processor 0) [] (cannot_read JNull ''toString'')"
    using t [of "sample_message\<lparr>m_value := None\<rparr>", THEN conjunct2, THEN conjunct2,
             THEN conjunct1] h2
    by (rule mp)
  show ?thesis
    by (simp add: a b caught_def cannot_read_def e)
qed

text \<open>
  The claim of C9 that \<open>processChange\<close> always returns normally fails: when the payload
  does not parse and the error logger of the \<open>catch\<close> clause throws, that exception
  leaves \<open>processChange\<close>.
\<close>

theorem processChange_rejects_when_error_logger_throws:
  "thrown (processChange sample_engine
             (sample_reading\<lparr>error_throws := Some (JsError None ''write EPIPE'')\<rparr>)
             (new_processor 0) malformed_message) =
     Some (JsError None ''write EPIPE'')"
  by (simp add: processChange_def processChange_try_def malformed_message_def sample_engine_def
        sample_reading_def)

subsection \<open>Reprocessing\<close>

text \<open>
  C5. Processing the same message twice logs two change objects, one per call, and counts
  the record twice: nothing is deduplicated. The two objects have the \<open>data\<close>,
  \<open>operation\<close> and \<open>table\<close> of the record, and agree on every property other than
  \<open>timestamp\<close> (the time of processing) and \<open>processingLatency\<close>, whatever these two
  are.
\<close>

theorem reprocessing_not_deduplicated:
  assumes "m_value msg = Some text"
      and "JSON_parse eng text = Inr changeData"
      and "\<not> nullish changeData"
      and "new_Date eng (member changeData ''timestamp'') = Inr original"
      and "emit_throws rd1 = None"
      and "emit_throws rd2 = None"
  shows "changes (logged (processChange eng rd1 st msg)) =
           [processedChange eng rd1 changeData
              (Math_max (Fin 0) (date_diff (t_latency rd1) original))] \<and>
         changes (logged (processChange eng rd2 (proc (processChange eng rd1 st msg)) msg)) =
           [processedChange eng rd2 changeData
              (Math_max (Fin 0) (date_diff (t_latency rd2) original))] \<and>
         processedCount (proc (processChange eng rd2 (proc (processChange eng rd1 st msg)) msg)) =
           processedCount st + 2 \<and>
         member (processedChange eng rd1 changeData l1) ''data'' = member changeData ''data'' \<and>
         member (processedChange eng rd1 changeData l1) ''operation'' =
           member changeData ''operation'' \<and>
         member (processedChange eng rd1 changeData l1) ''table'' = member changeData ''table'' \<and>
         (\<forall>k. k \<noteq> ''timestamp'' \<and> k \<noteq> ''processingLatency'' \<longrightarrow>
              member (processedChange eng rd1 changeData l1) k =
              member (processedChange eng rd2 changeData l2) k)"
proof -
  have lat: "\<And>rd. calculateLatency eng (t_latency rd) (member changeData ''timestamp'') =
               Inr (Math_max (Fin 0) (date_diff (t_latency rd) original))"
    using assms(4) by (simp add: calculateLatency_def)
  note one1 = processChange_changes [OF assms(1) assms(2) assms(3) lat assms(5), of st]
  note one2 = processChange_changes [OF assms(1) assms(2) assms(3) lat assms(6),
                of "proc (processChange eng rd1 st msg)"]
  have c: "processedCount (proc (processChange eng rd2 (proc (processChange eng rd1 st msg)) msg)) =
           processedCount st + 2"
    using one1(2) one2(2) by simp
  have f: "member (processedChange eng rd1 changeData l1) ''data'' = member changeData ''data''"
    by (simp add: processedChange_def)
  have g: "member (processedChange eng rd1 changeData l1) ''operation'' =
           member changeData ''operation''"
    by (simp add: processedChange_def)
  have h: "member (processedChange eng rd1 changeData l1) ''table'' = member changeData ''table''"
    by (simp add: processedChange_def)
  have k: "\<forall>k. k \<noteq> ''timestamp'' \<and> k \<noteq> ''processingLatency'' \<longrightarrow>
              member (processedChange eng rd1 changeData l1) k =
              member (processedChange eng rd2 changeData l2) k"
    by (simp add: processedChange_def)
  show ?thesis using one1(1) one2(1) c f g h k by (intro conjI)
qed

theorem reprocessing_not_deduplicated_witness:
  "changes (logged (processChange sample_engine sample_reading (new_processor 0) sample_message)) =
     [processedChange sample_engine sample_reading sample_record (Fin 0)] \<and>
   changes (logged (processChange sample_engine
                      (sample_reading\<lparr>t_processed := 2600, t_latency := 2601\<rparr>)
              (proc (processChange sample_engine sample_reading (new_processor 0) sample_message))
              sample_message)) =
     [processedChange sample_engine (sample_reading\<lparr>t_processed := 2600, t_latency := 2601\<rparr>)
        sample_record (Fin 601)] \<and>
   processedCount
     (proc (processChange sample_engine
              (sample_reading\<lparr>t_processed := 2600, t_latency := 2601\<rparr>)
              (proc (processChange sample_engine sample_reading (new_processor 0) sample_message))
              sample_message)) = 2 \<and>
   member (processedChange sample_engine sample_reading sample_record (Fin 0)) ''table'' =
     member (processedChange sample_engine
               (sample_reading\<lparr>t_processed := 2600, t_latency := 2601\<rparr>) sample_record
               (Fin 601)) ''table''"
proof -
  let ?rd2 = "sample_reading\<lparr>t_processed := 2600, t_latency := 2601\<rparr>"
  have h1: "m_value sample_message = Some ''{\"timestamp\":\"T\",\"table\":\"users\"}''"
    by (simp add: sample_message_def)
  have h2: "JSON_parse sample_engine ''{\"timestamp\":\"T\",\"table\":\"users\"}'' = Inr sample_record"
    by (simp add: sample_engine_def sample_record_def)
  have h3: "\<not> nullish sample_record"
    by (simp add: sample_record_def)
  have h4: "new_Date sample_engine (member sample_record ''timestamp'') = Inr (TimeValue 2000)"
    by (simp add: sample_engine_def sample_record_def)
  have h5: "emit_throws sample_reading = None"
    by (simp add: sample_reading_def)
  have h6: "emit_throws ?rd2 = None"
    by (simp add: sample_reading_def)
  note t = reprocessing_not_deduplicated [OF h1 h2 h3 h4 h5 h6, where st = "new_processor 0"
             and ?l1.0 = "Fin 0" and ?l2.0 = "Fin 601"]
  have a: "changes (logged (processChange sample_engine sample_reading (new_processor 0)
                      sample_message)) =
             [processedChange sample_engine sample_reading sample_record (Fin 0)]"
    using t [THEN conjunct1] by (simp add: sample_reading_def)
  have b: "changes (logged (processChange sample_engine ?rd2
              (proc (processChange sample_engine sample_reading (new_processor 0) sample_message))
              sample_message)) =
             [processedChange sample_engine ?rd2 sample_record (Fin 601)]"
    using t [THEN conjunct2, THEN conjunct1] by (simp add: sample_reading_def)
  have c: "processedCount
     (proc (processChange sample_engine ?rd2
              (proc (processChange sample_engine sample_reading (new_processor 0) sample_message))
              sample_message)) = 2"
    using t [THEN conjunct2, THEN conjunct2, THEN conjunct1] by (simp add: new_processor_def)
  have k: "''table'' \<noteq> ''timestamp'' \<and> ''table'' \<noteq> ''processingLatency''"
    by simp
  have d: "member (processedChange sample_engine sample_reading sample_record (Fin 0)) ''table'' =
           member (processedChange sample_engine ?rd2 sample_record (Fin 601)) ''table''"
    using t [THEN conjunct2, THEN conjunct2, THEN conjunct2, THEN conjunct2, THEN conjunct2,
             THEN conjunct2, THEN spec, of "''table''"] k
    by (rule mp)
  show ?thesis using a b c d by (intro conjI)
qed

subsection \<open>Shutdown\<close>

text \<open>
  C6. On SIGINT or SIGTERM the handler asks the consumer to disconnect, which takes the
  subscription out of \<open>RUNNING\<close>; when the disconnect is fulfilled it closes the health
  server, and then exits with code 0. The process never exits while the disconnect is
  pending: in every trace the exit comes after the disconnect has settled, and the exit
  code is 0 exactly when the disconnect was fulfilled.
\<close>

theorem graceful_shutdown_order:
  "on_signal sig (Fulfilled ()) running_process =
     \<lparr>subscription = DISCONNECTED, listening = False, exit_code = Some 0,
      trace =
        [Logged (LogText ConsumerLogger INFO
                   (''Received '' @ signal_name sig @ '', shutting down gracefully...'')),
         DisconnectCalled, DisconnectFulfilled, ServerClosed,
         Logged (LogText ConsumerLogger INFO ''Consumer disconnected successfully''),
         Exited 0]\<rparr> \<and>
   subscription (on_signal sig d ps) \<noteq> RUNNING \<and>
   exit_code (on_signal sig Pending running_process) = None \<and>
   (exit_code ps = None \<longrightarrow> exit_code (on_signal sig d ps) \<noteq> None \<longrightarrow> d \<noteq> Pending) \<and>
   (\<forall>j. first_index is_exit (trace (on_signal sig d running_process)) = Some j \<longrightarrow>
        (\<exists>i<j. first_index is_settled (trace (on_signal sig d running_process)) = Some i)) \<and>
   (exit_code (on_signal sig d running_process) = Some 0 \<longleftrightarrow> d = Fulfilled ())"
proof -
  have a: "on_signal sig (Fulfilled ()) running_process =
     \<lparr>subscription = DISCONNECTED, listening = False, exit_code = Some 0,
      trace =
        [Logged (LogText ConsumerLogger INFO
                   (''Received '' @ signal_name sig @ '', shutting down gracefully...'')),
         DisconnectCalled, DisconnectFulfilled, ServerClosed,
         Logged (LogText ConsumerLogger INFO ''Consumer disconnected successfully''),
         Exited 0]\<rparr>"
    by (simp add: on_signal_def gracefulShutdown_def running_process_def)
  have b: "subscription (on_signal sig d ps) \<noteq> RUNNING"
    by (cases d) (simp_all add: on_signal_def gracefulShutdown_def)
  have c: "exit_code (on_signal sig Pending running_process) = None"
    by (simp add: on_signal_def gracefulShutdown_def running_process_def)
  have d: "exit_code ps = None \<longrightarrow> exit_code (on_signal sig d ps) \<noteq> None \<longrightarrow> d \<noteq> Pending"
    by (cases d) (simp_all add: on_signal_def gracefulShutdown_def)
  have e: "\<forall>j. first_index is_exit (trace (on_signal sig d running_process)) = Some j \<longrightarrow>
        (\<exists>i<j. first_index is_settled (trace (on_signal sig d running_process)) = Some i)"
    by (cases d) (simp_all add: on_signal_def gracefulShutdown_def running_process_def)
  have f: "exit_code (on_signal sig d running_process) = Some 0 \<longleftrightarrow> d = Fulfilled ()"
    by (cases d) (simp_all add: on_signal_def gracefulShutdown_def running_process_def)
  show ?thesis using a b c d e f by blast
qed

theorem graceful_shutdown_order_witness:
  "exit_code (on_signal SIGTERM (Rejected (JsError None ''broker gone'')) running_process) = Some 1 \<and>
   first_index is_exit
     (trace (on_signal SIGTERM (Rejected (JsError None ''broker gone'')) running_process)) = Some 4 \<and>
   first_index is_settled
     (trace (on_signal SIGTERM (Rejected (JsError None ''broker gone'')) running_process)) = Some 2"
proof -
  have x: "first_index is_exit
     (trace (on_signal SIGTERM (Rejected (JsError None ''broker gone'')) running_process)) = Some 4"
    by (simp add: on_signal_def gracefulShutdown_def running_process_def)
  have n: "exit_code running_process = None"
    by (simp add: running_process_def)
  have c: "exit_code (on_signal SIGTERM (Rejected (JsError None ''broker gone'')) running_process) = Some 1"
    by (simp add: on_signal_def gracefulShutdown_def running_process_def)
  note t = graceful_shutdown_order [of SIGTERM "Rejected (JsError None ''broker gone'')" running_process]
  from t x obtain i where "i < 4"
    "first_index is_settled
       (trace (on_signal SIGTERM (Rejected (JsError None ''broker gone'')) running_process)) = Some i"
    by blast
  moreover have "first_index is_settled
       (trace (on_signal SIGTERM (Rejected (JsError None ''broker gone'')) running_process)) = Some 2"
    by (simp add: on_signal_def gracefulShutdown_def running_process_def)
  ultimately show ?thesis using x c by simp
qed

text \<open>
  Beside the claim: when the disconnect is rejected, the handler exits with code 1 without
  having called \<open>server.close()\<close>.
\<close>

lemma shutdown_after_rejected_disconnect:
  "exit_code (on_signal sig (Rejected e) running_process) = Some 1 \<and>
   ServerClosed \<notin> set (trace (on_signal sig (Rejected e) running_process))"
  by (simp add: on_signal_def gracefulShutdown_def running_process_def)

subsection \<open>Session and heartbeat\<close>

text \<open>
  The consumer is configured with a session timeout of 30000 ms and a heartbeat interval
  of 3000 ms, so the timeout is at least ten times the interval. When heartbeats are sent
  is decided by the client library, which is not part of the repository.
\<close>

lemma session_timeout_margin:
  "sessionTimeout consumer = 30000 \<and> heartbeatInterval consumer = 3000 \<and>
   10 * heartbeatInterval consumer \<le> sessionTimeout consumer"
  by (simp add: consumer_def)

section \<open>Properties of the API server\<close>

subsection \<open>Auxiliary facts\<close>

lemma logDatabaseChange_sent:
  "p_sent (logDatabaseChange w operation table data userId) =
     [\<lparr>topic = ''database-changes'',
       messages =
         [\<lparr>km_key = table @ ''-'' @ show_int (t_key w),
           km_value = stringify w (changeLog w operation table data userId)\<rparr>]\<rparr>]"
  by (cases "send_result w") (simp_all add: logDatabaseChange_def Let_def)

lemma logDatabaseChange_settled:
  "settled (logDatabaseChange w operation table data userId) =
     (case send_result w of Pending \<Rightarrow> Pending | Fulfilled u \<Rightarrow> Fulfilled () | Rejected e \<Rightarrow> Fulfilled ())"
  by (cases "send_result w") (simp_all add: logDatabaseChange_def Let_def)

lemma logDatabaseChange_logs:
  "p_logs (logDatabaseChange w operation table data userId) =
     (case send_result w of
        Pending \<Rightarrow> []
      | Fulfilled u \<Rightarrow> [ApiInfo ''Database change logged:'' (changeLog w operation table data userId)]
      | Rejected e \<Rightarrow> [ApiError ''Failed to log database change to Kafka:'' e])"
  by (cases "send_result w") (simp_all add: logDatabaseChange_def Let_def)

lemma register_sent:
  "r_sent (register w body) = [] \<or>
   (\<exists>insertId. insert_user_result w = Fulfilled insertId \<and>
      r_sent (register w body) =
        p_sent (logDatabaseChange w ''INSERT'' ''users''
                 (JObj [(''id'', insertId), (''username'', member (JObj body) ''username''),
                        (''email'', member (JObj body) ''email'')]) JUndefined))"
  by (cases "hash_result w"; cases "insert_user_result w"; cases "send_result w")
     (simp_all add: register_def register_catch_def responded_def suspended_def
        logDatabaseChange_settled Let_def)

lemma login_sent:
  "r_sent (login w body clientIP) = [] \<or>
   (\<exists>user rest. select_result w = Fulfilled (user # rest) \<and>
      r_sent (login w body clientIP) =
        p_sent (logDatabaseChange w ''INSERT'' ''user_activity''
                 (JObj [(''timestamp'', JStr (iso w (t_activity w))),
                        (''userId'', member user ''id''),
                        (''action'', JStr ''LOGIN''),
                        (''ipAddress'', clientIP)])
                 (member user ''id'')))"
  by (auto simp add: login_def login_catch_def responded_def suspended_def
        logDatabaseChange_settled Let_def
      split: promise.splits list.splits sum.splits if_splits)

lemma logout_sent:
  "r_sent (logout w userId ip) = [] \<or>
   r_sent (logout w userId ip) =
     p_sent (logDatabaseChange w ''UPDATE'' ''users''
              (JObj [(''id'', userId), (''token'', JNull)]) userId)"
  by (simp add: logout_def logout_catch_def responded_def suspended_def
        logDatabaseChange_settled Let_def
      split: promise.splits)

lemma register_response_rejected:
  "response (register (w\<lparr>send_result := Rejected e\<rparr>) body) =
   response (register (w\<lparr>send_result := Fulfilled ()\<rparr>) body)"
  by (simp add: register_def register_catch_def responded_def suspended_def
        logDatabaseChange_settled Let_def
      split: promise.splits)

lemma login_response_rejected:
  "response (login (w\<lparr>send_result := Rejected e\<rparr>) body clientIP) =
   response (login (w\<lparr>send_result := Fulfilled ()\<rparr>) body clientIP)"
  by (auto simp add: login_def login_catch_def responded_def suspended_def
        logDatabaseChange_settled Let_def
      split: promise.splits list.splits sum.splits if_splits)

lemma logout_response_rejected:
  "response (logout (w\<lparr>send_result := Rejected e\<rparr>) userId ip) =
   response (logout (w\<lparr>send_result := Fulfilled ()\<rparr>) userId ip)"
  by (simp add: logout_def logout_catch_def responded_def suspended_def
        logDatabaseChange_settled Let_def
      split: promise.splits)

lemma register_pending:
  "send_result w = Pending \<Longrightarrow> r_sent (register w body) \<noteq> [] \<Longrightarrow>
   response (register w body) = None"
  by (simp add: register_def register_catch_def responded_def suspended_def
        logDatabaseChange_settled Let_def
      split: promise.splits if_splits)

lemma login_pending:
  "send_result w = Pending \<Longrightarrow> r_sent (login w body clientIP) \<noteq> [] \<Longrightarrow>
   response (login w body clientIP) = None"
  by (auto simp add: login_def login_catch_def responded_def suspended_def
        logDatabaseChange_settled Let_def
      split: promise.splits list.splits sum.splits if_splits)

lemma logout_pending:
  "send_result w = Pending \<Longrightarrow> r_sent (logout w userId ip) \<noteq> [] \<Longrightarrow>
   response (logout w userId ip) = None"
  by (simp add: logout_def logout_catch_def responded_def suspended_def
        logDatabaseChange_settled Let_def
      split: promise.splits if_splits)

lemma register_logs_rejected:
  "send_result w = Rejected e \<Longrightarrow> r_sent (register w body) \<noteq> [] \<Longrightarrow>
   ApiError ''Failed to log database change to Kafka:'' e \<in> set (r_logs (register w body))"
  by (simp add: register_def register_catch_def responded_def suspended_def
        logDatabaseChange_settled logDatabaseChange_logs Let_def
      split: promise.splits if_splits)

lemma login_logs_rejected:
  "send_result w = Rejected e \<Longrightarrow> r_sent (login w body clientIP) \<noteq> [] \<Longrightarrow>
   ApiError ''Failed to log database change to Kafka:'' e \<in> set (r_logs (login w body clientIP))"
  by (auto simp add: login_def login_catch_def responded_def suspended_def
        logDatabaseChange_settled logDatabaseChange_logs Let_def
      split: promise.splits list.splits sum.splits if_splits)

lemma logout_logs_rejected:
  "send_result w = Rejected e \<Longrightarrow> r_sent (logout w userId ip) \<noteq> [] \<Longrightarrow>
   ApiError ''Failed to log database change to Kafka:'' e \<in> set (r_logs (logout w userId ip))"
  by (simp add: logout_def logout_catch_def responded_def suspended_def
        logDatabaseChange_settled logDatabaseChange_logs Let_def
      split: promise.splits if_splits)

lemma sample_world_fields:
  "hash_result sample_world = Fulfilled ''$2b$10$hash''"
  "insert_user_result sample_world = Fulfilled (JNum (Fin 7))"
  "send_result sample_world = Fulfilled ()"
  "t_key sample_world = 1001"
  "stringify sample_world = (\<lambda>v. ''{}'')"
  by (simp_all add: sample_world_def)

lemma sample_body_fields:
  "member (JObj sample_body) ''username'' = JStr ''ada''"
  "member (JObj sample_body) ''email'' = JStr ''ada@example.com''"
  "member (JObj sample_body) ''password'' = JStr ''secret''"
  by (simp_all add: sample_body_def)

lemma sample_body_truthy:
  "\<not> falsy (member (JObj sample_body) ''username'')"
  "\<not> falsy (member (JObj sample_body) ''email'')"
  "\<not> falsy (member (JObj sample_body) ''password'')"
  by (simp_all add: sample_body_def)

lemma show_int_1001: "show_int 1001 = ''1001''"
  by (simp add: show_int_def show_nat.simps)

lemma register_reaches_publish:
  assumes "\<not> falsy (member (JObj body) ''username'')"
      and "\<not> falsy (member (JObj body) ''email'')"
      and "\<not> falsy (member (JObj body) ''password'')"
      and "hash_result w = Fulfilled hashedPassword"
      and "insert_user_result w = Fulfilled insertId"
  shows "response (register w body) =
           (case send_result w of
              Pending \<Rightarrow> None
            | Fulfilled u \<Rightarrow>
                Some (201, JObj [(''message'', JStr ''User registered successfully''),
                                 (''userId'', insertId)])
            | Rejected e \<Rightarrow>
                Some (201, JObj [(''message'', JStr ''User registered successfully''),
                                 (''userId'', insertId)]))"
    and "r_sent (register w body) =
           p_sent (logDatabaseChange w ''INSERT'' ''users''
                    (JObj [(''id'', insertId), (''username'', member (JObj body) ''username''),
                           (''email'', member (JObj body) ''email'')]) JUndefined)"
  using assms
  by (cases "send_result w";
      simp add: register_def logDatabaseChange_settled responded_def suspended_def Let_def)+

lemma sample_register_sent:
  "r_sent (register sample_world sample_body) =
     [\<lparr>topic = ''database-changes'',
       messages = [\<lparr>km_key = ''users-1001'', km_value = ''{}''\<rparr>]\<rparr>]"
proof -
  have "r_sent (register sample_world sample_body) =
          p_sent (logDatabaseChange sample_world ''INSERT'' ''users''
                   (JObj [(''id'', JNum (Fin 7)),
                          (''username'', member (JObj sample_body) ''username''),
                          (''email'', member (JObj sample_body) ''email'')]) JUndefined)"
    by (rule register_reaches_publish(2)
              [OF sample_body_truthy sample_world_fields(1) sample_world_fields(2)])
  then show ?thesis
    by (simp add: logDatabaseChange_sent sample_world_fields show_int_1001)
qed

lemma sample_register_pending:
  "r_sent (register (sample_world\<lparr>send_result := Pending\<rparr>) sample_body) \<noteq> []"
proof -
  have "r_sent (register (sample_world\<lparr>send_result := Pending\<rparr>) sample_body) =
          p_sent (logDatabaseChange (sample_world\<lparr>send_result := Pending\<rparr>) ''INSERT'' ''users''
                   (JObj [(''id'', JNum (Fin 7)),
                          (''username'', member (JObj sample_body) ''username''),
                          (''email'', member (JObj sample_body) ''email'')]) JUndefined)"
    by (rule register_reaches_publish(2) [OF sample_body_truthy])
       (simp_all add: sample_world_fields)
  then show ?thesis by (simp add: logDatabaseChange_sent)
qed

subsection \<open>The published record\<close>

text \<open>
  C8. Whatever the outcome of the send, \<open>logDatabaseChange\<close> hands the producer one
  request for the topic \<open>database-changes\<close> with one message: its key is the table name,
  a hyphen and the decimal milliseconds of \<open>Date.now()\<close>, and its value is the JSON text
  of the record with the properties \<open>timestamp\<close>, \<open>operation\<close>, \<open>table\<close>, \<open>data\<close>
  and \<open>userId\<close>. Every request sent by the register, login and logout handlers has this
  form.
\<close>

theorem published_record_shape:
  "p_sent (logDatabaseChange w operation table data userId) =
     [\<lparr>topic = ''database-changes'',
       messages =
         [\<lparr>km_key = table @ ''-'' @ show_int (t_key w),
           km_value =
             stringify w
               (JObj [(''timestamp'', JStr (iso w (t_capture w))),
                      (''operation'', JStr operation),
                      (''table'', JStr table),
                      (''data'', data),
                      (''userId'', (if userId = JUndefined then JNull else userId))])\<rparr>]\<rparr>] \<and>
   (\<forall>rq \<in> set (r_sent (register w body) @ r_sent (login w body' clientIP) @
                  r_sent (logout w uid ip)).
      topic rq = ''database-changes'' \<and>
      (\<exists>operation' table' data' userId'.
         messages rq =
           [\<lparr>km_key = table' @ ''-'' @ show_int (t_key w),
             km_value = stringify w (changeLog w operation' table' data' userId')\<rparr>]))"
proof -
  have a: "p_sent (logDatabaseChange w operation table data userId) =
     [\<lparr>topic = ''database-changes'',
       messages =
         [\<lparr>km_key = table @ ''-'' @ show_int (t_key w),
           km_value =
             stringify w
               (JObj [(''timestamp'', JStr (iso w (t_capture w))),
                      (''operation'', JStr operation),
                      (''table'', JStr table),
                      (''data'', data),
                      (''userId'', (if userId = JUndefined then JNull else userId))])\<rparr>]\<rparr>]"
    by (simp add: logDatabaseChange_sent changeLog_def)
  have shape: "\<And>rq op t d u. rq \<in> set (p_sent (logDatabaseChange w op t d u)) \<Longrightarrow>
      topic rq = ''database-changes'' \<and>
      (\<exists>operation' table' data' userId'.
         messages rq =
           [\<lparr>km_key = table' @ ''-'' @ show_int (t_key w),
             km_value = stringify w (changeLog w operation' table' data' userId')\<rparr>])"
    by (auto simp add: logDatabaseChange_sent)
  have b: "\<forall>rq \<in> set (r_sent (register w body) @ r_sent (login w body' clientIP) @
                  r_sent (logout w uid ip)).
      topic rq = ''database-changes'' \<and>
      (\<exists>operation' table' data' userId'.
         messages rq =
           [\<lparr>km_key = table' @ ''-'' @ show_int (t_key w),
             km_value = stringify w (changeLog w operation' table' data' userId')\<rparr>])"
  proof
    fix rq
    assume "rq \<in> set (r_sent (register w body) @ r_sent (login w body' clientIP) @
                  r_sent (logout w uid ip))"
    then consider "rq \<in> set (r_sent (register w body))"
      | "rq \<in> set (r_sent (login w body' clientIP))"
      | "rq \<in> set (r_sent (logout w uid ip))"
      by auto
    then show "topic rq = ''database-changes'' \<and>
      (\<exists>operation' table' data' userId'.
         messages rq =
           [\<lparr>km_key = table' @ ''-'' @ show_int (t_key w),
             km_value = stringify w (changeLog w operation' table' data' userId')\<rparr>])"
    proof cases
      case 1
      then obtain d where "rq \<in> set (p_sent (logDatabaseChange w ''INSERT'' ''users'' d JUndefined))"
        using register_sent[of w body] by auto
      then show ?thesis by (rule shape)
    next
      case 2
      then obtain d u where
        "rq \<in> set (p_sent (logDatabaseChange w ''INSERT'' ''user_activity'' d u))"
        using login_sent[of w body' clientIP] by auto
      then show ?thesis by (rule shape)
    next
      case 3
      then have "rq \<in> set (p_sent (logDatabaseChange w ''UPDATE'' ''users''
                   (JObj [(''id'', uid), (''token'', JNull)]) uid))"
        using logout_sent[of w uid ip] by auto
      then show ?thesis by (rule shape)
    qed
  qed
  show ?thesis using a b by (rule conjI)
qed

theorem published_record_shape_witness:
  "r_sent (register sample_world sample_body) =
     [\<lparr>topic = ''database-changes'',
       messages = [\<lparr>km_key = ''users-1001'', km_value = ''{}''\<rparr>]\<rparr>] \<and>
   map topic (r_sent (register sample_world sample_body)) = [''database-changes'']"
proof -
  let ?rq = "\<lparr>topic = ''database-changes'',
              messages = [\<lparr>km_key = ''users-1001'', km_value = ''{}''\<rparr>]\<rparr>"
  note t = published_record_shape [of sample_world "''INSERT''" "''users''" JNull JUndefined
             sample_body sample_body JNull JNull JNull, THEN conjunct2]
  have m: "?rq \<in> set (r_sent (register sample_world sample_body) @
                       r_sent (login sample_world sample_body JNull) @
                       r_sent (logout sample_world JNull JNull))"
    by (simp add: sample_register_sent)
  have "topic ?rq = ''database-changes''"
    using t [THEN bspec, OF m] by (rule conjunct1)
  then have "map topic (r_sent (register sample_world sample_body)) = [''database-changes'']"
    by (simp add: sample_register_sent)
  then show ?thesis using sample_register_sent by (intro conjI)
qed

subsection \<open>The acting user of a registration\<close>

text \<open>
  C10. The registration handler calls \<open>logDatabaseChange\<close> without a user id, so the
  record it publishes has \<open>userId\<close> null; the id of the new row appears only as
  \<open>data.id\<close>.
\<close>

theorem register_publishes_null_userId:
  "(hash_result w = Fulfilled hashedPassword \<and> insert_user_result w = Fulfilled insertId \<and>
    \<not> falsy (member (JObj body) ''username'') \<and> \<not> falsy (member (JObj body) ''email'') \<and>
    \<not> falsy (member (JObj body) ''password'') \<longrightarrow>
      r_sent (register w body) =
        [\<lparr>topic = ''database-changes'',
          messages =
            [\<lparr>km_key = ''users-'' @ show_int (t_key w),
              km_value =
                stringify w
                  (JObj [(''timestamp'', JStr (iso w (t_capture w))),
                         (''operation'', JStr ''INSERT''),
                         (''table'', JStr ''users''),
                         (''data'',
                            JObj [(''id'', insertId),
                                  (''username'', member (JObj body) ''username''),
                                  (''email'', member (JObj body) ''email'')]),
                         (''userId'', JNull)])\<rparr>]\<rparr>]) \<and>
   (\<forall>rq \<in> set (r_sent (register w body)).
      \<exists>insertId' data.
        insert_user_result w = Fulfilled insertId' \<and> member data ''id'' = insertId' \<and>
        messages rq =
          [\<lparr>km_key = ''users-'' @ show_int (t_key w),
            km_value = stringify w (changeLog w ''INSERT'' ''users'' data JUndefined)\<rparr>] \<and>
        member (changeLog w ''INSERT'' ''users'' data JUndefined) ''userId'' = JNull \<and>
        member (changeLog w ''INSERT'' ''users'' data JUndefined) ''data'' = data)"
proof -
  have a: "hash_result w = Fulfilled hashedPassword \<and> insert_user_result w = Fulfilled insertId \<and>
    \<not> falsy (member (JObj body) ''username'') \<and> \<not> falsy (member (JObj body) ''email'') \<and>
    \<not> falsy (member (JObj body) ''password'') \<longrightarrow>
      r_sent (register w body) =
        [\<lparr>topic = ''database-changes'',
          messages =
            [\<lparr>km_key = ''users-'' @ show_int (t_key w),
              km_value =
                stringify w
                  (JObj [(''timestamp'', JStr (iso w (t_capture w))),
                         (''operation'', JStr ''INSERT''),
                         (''table'', JStr ''users''),
                         (''data'',
                            JObj [(''id'', insertId),
                                  (''username'', member (JObj body) ''username''),
                                  (''email'', member (JObj body) ''email'')]),
                         (''userId'', JNull)])\<rparr>]\<rparr>]"
    by (cases "send_result w")
       (simp_all add: register_def logDatabaseChange_def changeLog_def responded_def
          suspended_def Let_def)
  have b: "\<forall>rq \<in> set (r_sent (register w body)).
      \<exists>insertId' data.
        insert_user_result w = Fulfilled insertId' \<and> member data ''id'' = insertId' \<and>
        messages rq =
          [\<lparr>km_key = ''users-'' @ show_int (t_key w),
            km_value = stringify w (changeLog w ''INSERT'' ''users'' data JUndefined)\<rparr>] \<and>
        member (changeLog w ''INSERT'' ''users'' data JUndefined) ''userId'' = JNull \<and>
        member (changeLog w ''INSERT'' ''users'' data JUndefined) ''data'' = data"
  proof
    fix rq
    assume m: "rq \<in> set (r_sent (register w body))"
    then obtain insertId' where i: "insert_user_result w = Fulfilled insertId'"
      and s: "r_sent (register w body) =
        p_sent (logDatabaseChange w ''INSERT'' ''users''
                 (JObj [(''id'', insertId'), (''username'', member (JObj body) ''username''),
                        (''email'', member (JObj body) ''email'')]) JUndefined)"
      using register_sent[of w body] by auto
    let ?d = "JObj [(''id'', insertId'), (''username'', member (JObj body) ''username''),
                    (''email'', member (JObj body) ''email'')]"
    have "messages rq =
          [\<lparr>km_key = ''users-'' @ show_int (t_key w),
            km_value = stringify w (changeLog w ''INSERT'' ''users'' ?d JUndefined)\<rparr>]"
      using m s by (simp add: logDatabaseChange_sent)
    moreover have "member ?d ''id'' = insertId'" by simp
    moreover have "member (changeLog w ''INSERT'' ''users'' ?d JUndefined) ''userId'' = JNull"
      by (simp add: changeLog_def)
    moreover have "member (changeLog w ''INSERT'' ''users'' ?d JUndefined) ''data'' = ?d"
      by (simp add: changeLog_def)
    ultimately show "\<exists>insertId' data.
        insert_user_result w = Fulfilled insertId' \<and> member data ''id'' = insertId' \<and>
        messages rq =
          [\<lparr>km_key = ''users-'' @ show_int (t_key w),
            km_value = stringify w (changeLog w ''INSERT'' ''users'' data JUndefined)\<rparr>] \<and>
        member (changeLog w ''INSERT'' ''users'' data JUndefined) ''userId'' = JNull \<and>
        member (changeLog w ''INSERT'' ''users'' data JUndefined) ''data'' = data"
      using i by blast
  qed
  show ?thesis using a b by (rule conjI)
qed

theorem register_publishes_null_userId_witness:
  "r_sent (register sample_world sample_body) =
     [\<lparr>topic = ''database-changes'',
       messages =
         [\<lparr>km_key = ''users-1001'',
           km_value =
             stringify sample_world
               (JObj [(''timestamp'', JStr (iso sample_world (t_capture sample_world))),
                      (''operation'', JStr ''INSERT''),
                      (''table'', JStr ''users''),
                      (''data'',
                         JObj [(''id'', JNum (Fin 7)), (''username'', JStr ''ada''),
                               (''email'', JStr ''ada@example.com'')]),
                      (''userId'', JNull)])\<rparr>]\<rparr>]"
proof -
  have h: "hash_result sample_world = Fulfilled ''$2b$10$hash'' \<and>
           insert_user_result sample_world = Fulfilled (JNum (Fin 7)) \<and>
           \<not> falsy (member (JObj sample_body) ''username'') \<and>
           \<not> falsy (member (JObj sample_body) ''email'') \<and>
           \<not> falsy (member (JObj sample_body) ''password'')"
    by (intro conjI sample_world_fields(1) sample_world_fields(2) sample_body_truthy)
  note t = register_publishes_null_userId [of sample_world "''$2b$10$hash''" "JNum (Fin 7)"
             sample_body, THEN conjunct1, rule_format, OF h]
  show ?thesis using t by (simp add: sample_world_fields sample_body_fields show_int_1001)
qed

subsection \<open>Publish failures\<close>

text \<open>
  C1, as the code has it. A send that rejects is caught inside \<open>logDatabaseChange\<close>, which
  logs the error and fulfils its own promise: it never rejects, so the publish cannot raise
  into the register, login or logout handler, and the response of each handler is the one
  it sends after a successful publish. The handlers await the publish: once a handler has
  handed its request to the producer, it sends no response while the send is pending.
\<close>

theorem publish_failure_swallowed:
  "settled (logDatabaseChange (w\<lparr>send_result := Rejected e\<rparr>) operation table data userId) =
     Fulfilled () \<and>
   p_logs (logDatabaseChange (w\<lparr>send_result := Rejected e\<rparr>) operation table data userId) =
     [ApiError ''Failed to log database change to Kafka:'' e] \<and>
   (\<forall>e'. settled (logDatabaseChange w operation table data userId) \<noteq> Rejected e') \<and>
   response (register (w\<lparr>send_result := Rejected e\<rparr>) body) =
     response (register (w\<lparr>send_result := Fulfilled ()\<rparr>) body) \<and>
   response (login (w\<lparr>send_result := Rejected e\<rparr>) body clientIP) =
     response (login (w\<lparr>send_result := Fulfilled ()\<rparr>) body clientIP) \<and>
   response (logout (w\<lparr>send_result := Rejected e\<rparr>) uid ip) =
     response (logout (w\<lparr>send_result := Fulfilled ()\<rparr>) uid ip) \<and>
   (send_result w = Rejected e \<and> r_sent (register w body) \<noteq> [] \<longrightarrow>
      ApiError ''Failed to log database change to Kafka:'' e \<in> set (r_logs (register w body))) \<and>
   (send_result w = Rejected e \<and> r_sent (login w body clientIP) \<noteq> [] \<longrightarrow>
      ApiError ''Failed to log database change to Kafka:'' e
        \<in> set (r_logs (login w body clientIP))) \<and>
   (send_result w = Rejected e \<and> r_sent (logout w uid ip) \<noteq> [] \<longrightarrow>
      ApiError ''Failed to log database change to Kafka:'' e \<in> set (r_logs (logout w uid ip))) \<and>
   (send_result w = Pending \<and> r_sent (register w body) \<noteq> [] \<longrightarrow>
      response (register w body) = None) \<and>
   (send_result w = Pending \<and> r_sent (login w body clientIP) \<noteq> [] \<longrightarrow>
      response (login w body clientIP) = None) \<and>
   (send_result w = Pending \<and> r_sent (logout w uid ip) \<noteq> [] \<longrightarrow>
      response (logout w uid ip) = None)"
proof -
  have a: "settled (logDatabaseChange (w\<lparr>send_result := Rejected e\<rparr>) operation table data userId) =
             Fulfilled ()"
    by (simp add: logDatabaseChange_settled)
  have b: "p_logs (logDatabaseChange (w\<lparr>send_result := Rejected e\<rparr>) operation table data userId) =
             [ApiError ''Failed to log database change to Kafka:'' e]"
    by (simp add: logDatabaseChange_logs)
  have c: "\<forall>e'. settled (logDatabaseChange w operation table data userId) \<noteq> Rejected e'"
    by (simp add: logDatabaseChange_settled split: promise.splits)
  note d = register_response_rejected [where w = w and e = e and body = body]
  note f = login_response_rejected [where w = w and e = e and body = body and clientIP = clientIP]
  note g = logout_response_rejected [where w = w and e = e and userId = uid and ip = ip]
  have h: "send_result w = Rejected e \<and> r_sent (register w body) \<noteq> [] \<longrightarrow>
      ApiError ''Failed to log database change to Kafka:'' e \<in> set (r_logs (register w body))"
    using register_logs_rejected [where w = w and e = e and body = body] by blast
  have i: "send_result w = Rejected e \<and> r_sent (login w body clientIP) \<noteq> [] \<longrightarrow>
      ApiError ''Failed to log database change to Kafka:'' e
        \<in> set (r_logs (login w body clientIP))"
    using login_logs_rejected [where w = w and e = e and body = body and clientIP = clientIP] by blast
  have j: "send_result w = Rejected e \<and> r_sent (logout w uid ip) \<noteq> [] \<longrightarrow>
      ApiError ''Failed to log database change to Kafka:'' e \<in> set (r_logs (logout w uid ip))"
    using logout_logs_rejected [where w = w and e = e and userId = uid and ip = ip] by blast
  have k: "send_result w = Pending \<and> r_sent (register w body) \<noteq> [] \<longrightarrow>
      response (register w body) = None"
    using register_pending [where w = w and body = body] by blast
  have l: "send_result w = Pending \<and> r_sent (login w body clientIP) \<noteq> [] \<longrightarrow>
      response (login w body clientIP) = None"
    using login_pending [where w = w and body = body and clientIP = clientIP] by blast
  have m: "send_result w = Pending \<and> r_sent (logout w uid ip) \<noteq> [] \<longrightarrow>
      response (logout w uid ip) = None"
    using logout_pending [where w = w and userId = uid and ip = ip] by blast
  show ?thesis
    by (intro conjI a b c d f g h i j k l m)
qed

theorem publish_failure_swallowed_witness:
  "send_result (sample_world\<lparr>send_result := Pending\<rparr>) = Pending \<and>
   r_sent (register (sample_world\<lparr>send_result := Pending\<rparr>) sample_body) \<noteq> [] \<and>
   response (register (sample_world\<lparr>send_result := Pending\<rparr>) sample_body) = None \<and>
   settled (logDatabaseChange
              (sample_world\<lparr>send_result := Rejected (JsError None ''broker down'')\<rparr>)
              ''INSERT'' ''users'' JNull JUndefined) = Fulfilled ()"
proof -
  have h: "send_result (sample_world\<lparr>send_result := Pending\<rparr>) = Pending \<and>
           r_sent (register (sample_world\<lparr>send_result := Pending\<rparr>) sample_body) \<noteq> []"
    using sample_register_pending by simp
  note t = publish_failure_swallowed [where w = "sample_world\<lparr>send_result := Pending\<rparr>"
             and e = "JsError None ''broker down''" and operation = "''INSERT''"
             and table = "''users''" and data = JNull and userId = JUndefined
             and body = sample_body and clientIP = JNull and uid = JNull and ip = JNull]
  have n: "response (register (sample_world\<lparr>send_result := Pending\<rparr>) sample_body) = None"
    using t h by blast
  have s: "settled (logDatabaseChange
              (sample_world\<lparr>send_result := Rejected (JsError None ''broker down'')\<rparr>)
              ''INSERT'' ''users'' JNull JUndefined) = Fulfilled ()"
    using t [THEN conjunct1] by simp
  show ?thesis using h n s by blast
qed

text \<open>
  The claim of C1 that the publish does not block the write path fails: with every other
  call fulfilled, the registration handler answers 201 once the send is fulfilled, and
  has sent no response while the send is pending.
\<close>

theorem register_waits_for_publish:
  "response (register (sample_world\<lparr>send_result := Pending\<rparr>) sample_body) = None \<and>
   response (register (sample_world\<lparr>send_result := Fulfilled ()\<rparr>) sample_body) =
     Some (201, JObj [(''message'', JStr ''User registered successfully''),
                      (''userId'', JNum (Fin 7))])"
proof -
  have p: "response (register (sample_world\<lparr>send_result := Pending\<rparr>) sample_body) =
           (case send_result (sample_world\<lparr>send_result := Pending\<rparr>) of
              Pending \<Rightarrow> None
            | Fulfilled u \<Rightarrow>
                Some (201, JObj [(''message'', JStr ''User registered successfully''),
                                 (''userId'', JNum (Fin 7))])
            | Rejected e \<Rightarrow>
                Some (201, JObj [(''message'', JStr ''User registered successfully''),
                                 (''userId'', JNum (Fin 7))]))"
    by (rule register_reaches_publish(1) [OF sample_body_truthy])
       (simp_all add: sample_world_fields)
  have f: "response (register (sample_world\<lparr>send_result := Fulfilled ()\<rparr>) sample_body) =
           (case send_result (sample_world\<lparr>send_result := Fulfilled ()\<rparr>) of
              Pending \<Rightarrow> None
            | Fulfilled u \<Rightarrow>
                Some (201, JObj [(''message'', JStr ''User registered successfully''),
                                 (''userId'', JNum (Fin 7))])
            | Rejected e \<Rightarrow>
                Some (201, JObj [(''message'', JStr ''User registered successfully''),
                                 (''userId'', JNum (Fin 7))]))"
    by (rule register_reaches_publish(1) [OF sample_body_truthy])
       (simp_all add: sample_world_fields)
  show ?thesis using p f by simp
qed

end
